theory Spec2Isabelle
  imports Complex_Main "HOL-Library.AList" "HOL-Library.Sublist"
begin

section \<open>The synthetic telemetry generator (synthetic_generator.py)\<close>

text \<open>
  The script is modelled top to bottom. Module-level statements become functions of the
  configuration, which the script keeps in the global \<open>config\<close>. Python's \<open>float\<close> is
  modelled by \<open>real\<close> (rounding is not part of the model), Python's \<open>int\<close> by \<open>int\<close>,
  \<open>str\<close> by \<open>string\<close>, and a value that is either a \<open>str\<close> or \<open>None\<close> by
  \<open>string option\<close>. Exceptions are values of \<open>error\<close>, returned as \<open>Inl\<close>.
\<close>

subsection \<open>Exceptions and configuration\<close>

datatype error = ValueError string | KeyError | TypeError | IndexError

record config =
  num_vehicles :: int
  num_fixed_assets :: int
  num_env_sensors :: int
  num_personnel :: int
  frequency :: real
  variance :: real
  seed :: int
  mode :: string
  broker :: string
  port :: int
  aws_endpoint :: "string option"
  cert :: "string option"
  key :: "string option"
  ca :: "string option"

text \<open>The dictionary \<open>default_config\<close> of \<open>load_config\<close> (lines 18 to 33).\<close>

definition default_config :: config where
  "default_config =
     \<lparr>num_vehicles = 5, num_fixed_assets = 10, num_env_sensors = 20, num_personnel = 15,
      frequency = 10, variance = 1 / 10, seed = 42, mode = ''normal'',
      broker = ''localhost'', port = 1883,
      aws_endpoint = None, cert = None, key = None, ca = None\<rparr>"

text \<open>Truth value of a \<open>str\<close>-or-\<open>None\<close>: \<open>None\<close> and the empty string are false.\<close>

definition truthy :: "string option \<Rightarrow> bool" where
  "truthy v = (case v of None \<Rightarrow> False | Some s \<Rightarrow> s \<noteq> [])"

subsection \<open>Strings, ranges and slices\<close>

text \<open>\<open>sub in s\<close> on strings: \<open>sub\<close> occurs in \<open>s\<close> as a contiguous substring.\<close>

fun py_in :: "string \<Rightarrow> string \<Rightarrow> bool" where
  "py_in sub [] = (sub = [])"
| "py_in sub (c # cs) = (prefix sub (c # cs) \<or> py_in sub cs)"

definition digit :: "nat \<Rightarrow> char" where
  "digit d = ''0123456789'' ! d"

text \<open>Decimal digits of a natural number, most significant first.\<close>

fun dec :: "nat \<Rightarrow> string" where
  "dec n = (if n < 10 then [digit n] else dec (n div 10) @ [digit (n mod 10)])"

declare dec.simps [simp del]

text \<open>The format \<open>{i:03d}\<close> for \<open>i \<ge> 0\<close>: decimal, padded with zeros to width 3 at least.\<close>

definition fmt03 :: "nat \<Rightarrow> string" where
  "fmt03 i = replicate (3 - length (dec i)) (CHR ''0'') @ dec i"

text \<open>Reading a decimal string back (used to show that \<open>fmt03\<close> is injective).\<close>

definition undec :: "string \<Rightarrow> nat" where
  "undec s = foldl (\<lambda>a c. 10 * a + (of_char c - 48)) 0 s"

text \<open>\<open>range(k)\<close> is \<open>0, \<dots>, k - 1\<close>, empty when \<open>k \<le> 0\<close>.\<close>

definition py_range :: "int \<Rightarrow> nat list" where
  "py_range k = [0..<nat k]"

text \<open>The slice \<open>xs[:n]\<close>; a negative \<open>n\<close> counts from the end.\<close>

definition py_slice_to :: "int \<Rightarrow> 'a list \<Rightarrow> 'a list" where
  "py_slice_to n xs =
     (if 0 \<le> n then take (nat n) xs else take (length xs - nat (- n)) xs)"

subsection \<open>Device identifiers (lines 76 to 82)\<close>

definition vehicles :: "config \<Rightarrow> string list" where
  "vehicles config =
     py_slice_to (num_vehicles config)
       [typ @ ''_'' @ fmt03 i.
          typ \<leftarrow> [''haul_truck'', ''loader'', ''excavator''],
          i \<leftarrow> py_range (num_vehicles config div 3 + 1)]"

definition fixed_assets :: "config \<Rightarrow> string list" where
  "fixed_assets config =
     py_slice_to (num_fixed_assets config)
       [typ @ ''_'' @ fmt03 i.
          typ \<leftarrow> [''fan'', ''vent_system'', ''conveyor''],
          i \<leftarrow> py_range (num_fixed_assets config div 3 + 1)]"

definition env_sensors :: "config \<Rightarrow> string list" where
  "env_sensors config =
     py_slice_to (num_env_sensors config)
       [''env_'' @ typ @ ''_'' @ fmt03 i.
          typ \<leftarrow> [''co_co2'', ''methane'', ''dust'', ''temp_hum'', ''ground_stab''],
          i \<leftarrow> py_range (num_env_sensors config div 5 + 1)]"

definition personnel :: "config \<Rightarrow> string list" where
  "personnel config = [''personnel_'' @ fmt03 i. i \<leftarrow> py_range (num_personnel config)]"

definition all_devices :: "config \<Rightarrow> string list" where
  "all_devices config =
     vehicles config @ fixed_assets config @ env_sensors config @ personnel config"

text \<open>
  The number of identifiers of a list that start with a subtype's prefix
  (\<open>haul_truck_\<close>, \<open>env_dust_\<close>, \<dots>).
\<close>

definition subtype_count :: "string \<Rightarrow> string list \<Rightarrow> nat" where
  "subtype_count pre ids = length (filter (prefix pre) ids)"

text \<open>
  What the comprehension and the slice give the \<open>j\<close>-th of \<open>k\<close> subtypes when \<open>n\<close>
  identifiers are asked for: the subtypes are filled one after the other, \<open>n div k + 1\<close>
  indices each, until \<open>n\<close> identifiers exist.
\<close>

definition block_split :: "nat \<Rightarrow> nat \<Rightarrow> nat \<Rightarrow> nat" where
  "block_split k n j = min (n div k + 1) (n - j * (n div k + 1))"

text \<open>The identifiers of one subtype prefix, and of several prefixes in turn.\<close>

definition block :: "string \<Rightarrow> nat \<Rightarrow> string list" where
  "block p q = map (\<lambda>i. p @ fmt03 i) [0..<q]"

definition blocks :: "string list \<Rightarrow> nat \<Rightarrow> string list" where
  "blocks ps q = concat (map (\<lambda>p. block p q) ps)"

subsection \<open>Device type of an identifier (lines 117 to 125)\<close>

text \<open>
  The function has no \<open>raise\<close> and no final \<open>else\<close>: when no branch is taken it
  returns \<open>None\<close>.
\<close>

definition get_device_type :: "string \<Rightarrow> string option" where
  "get_device_type device_id =
     (if py_in ''truck'' device_id \<or> py_in ''loader'' device_id \<or> py_in ''excavator'' device_id
      then Some ''vehicle''
      else if py_in ''fan'' device_id \<or> py_in ''vent'' device_id \<or> py_in ''conveyor'' device_id
      then Some ''fixed''
      else if py_in ''env'' device_id then Some ''env''
      else if py_in ''personnel'' device_id then Some ''personnel''
      else None)"

subsection \<open>Start-up (lines 48 to 82 and 190 to 196)\<close>

definition quoted :: "string \<Rightarrow> string" where
  "quoted s = CHR 0x27 # s @ [CHR 0x27]"

definition mode_message :: string where
  "mode_message =
     ''Mode must be '' @ quoted ''normal'' @ '', '' @ quoted ''fault'' @ '', or ''
       @ quoted ''intermittent''"

text \<open>Lines 49 and 50.\<close>

definition validate_mode :: "config \<Rightarrow> error + unit" where
  "validate_mode config =
     (if mode config \<notin> set [''normal'', ''fault'', ''intermittent'']
      then Inl (ValueError mode_message) else Inr ())"

text \<open>
  The client the script connects (lines 56 to 73): the TLS material given to
  \<open>tls_set\<close> (absent for a local broker), and the endpoint and port given to
  \<open>connect\<close>. What the network does with the connection is outside the script.
\<close>

record connection =
  ca_certs :: "string option"
  certfile :: "string option"
  keyfile :: "string option"
  endpoint :: "string option"
  mqtt_port :: int

definition connect_client :: "config \<Rightarrow> error + connection" where
  "connect_client config =
     (if broker config = ''aws'' \<and> truthy (aws_endpoint config) then
        (if \<not> list_all truthy [cert config, key config, ca config]
         then Inl (ValueError ''AWS IoT requires cert, key, and CA paths'')
         else Inr \<lparr>ca_certs = ca config, certfile = cert config, keyfile = key config,
                   endpoint = aws_endpoint config, mqtt_port = 8883\<rparr>)
      else Inr \<lparr>ca_certs = None, certfile = None, keyfile = None,
                endpoint = Some (broker config), mqtt_port = port config\<rparr>)"

text \<open>
  The script up to the point where every thread has been started: the connection and the
  devices that got a \<open>publish_loop\<close> thread, in the order of \<open>all_devices\<close>.
\<close>

record started =
  client :: connection
  threads :: "string list"

definition startup :: "config \<Rightarrow> error + started" where
  "startup config =
     (case validate_mode config of
        Inl e \<Rightarrow> Inl e
      | Inr _ \<Rightarrow>
          (case connect_client config of
             Inl e \<Rightarrow> Inl e
           | Inr c \<Rightarrow> Inr \<lparr>client = c, threads = all_devices config\<rparr>))"

subsection \<open>The random number generator\<close>

text \<open>
  The module \<open>random\<close> is not part of the script. Its generator is modelled by the
  sequence of numbers that \<open>random.random()\<close> is going to return, each of them in \<open>[0, 1)\<close>
  (\<open>unit_draws\<close>); a call takes the first number and leaves the rest.
  \<open>random.uniform(a, b)\<close> is \<open>a + (b - a) * random()\<close>, as the library defines it;
  \<open>random.choice\<close> and \<open>random.randint\<close> select with one number, \<open>choice\<close> of an empty
  sequence raises \<open>IndexError\<close>.
\<close>

type_synonym rng = "nat \<Rightarrow> real"

definition unit_draws :: "rng \<Rightarrow> bool" where
  "unit_draws g = (\<forall>n. 0 \<le> g n \<and> g n < 1)"

definition const_draws :: "real \<Rightarrow> rng" where
  "const_draws u = (\<lambda>n. u)"

definition py_random :: "rng \<Rightarrow> real \<times> rng" where
  "py_random g = (g 0, \<lambda>n. g (Suc n))"

definition uniform :: "real \<Rightarrow> real \<Rightarrow> rng \<Rightarrow> real \<times> rng" where
  "uniform a b g = (case py_random g of (u, g') \<Rightarrow> (a + (b - a) * u, g'))"

definition choice :: "'a list \<Rightarrow> rng \<Rightarrow> error + ('a \<times> rng)" where
  "choice seq g =
     (if seq = [] then Inl IndexError
      else case py_random g of (u, g') \<Rightarrow> Inr (seq ! nat \<lfloor>u * real (length seq)\<rfloor>, g'))"

definition randint :: "int \<Rightarrow> int \<Rightarrow> rng \<Rightarrow> int \<times> rng" where
  "randint a b g = (case py_random g of (u, g') \<Rightarrow> (a + \<lfloor>u * real_of_int (b - a + 1)\<rfloor>, g'))"

subsection \<open>Metric table (lines 85 to 114)\<close>

text \<open>
  The four shapes of a table entry: a pair \<open>(low, high)\<close>, a dictionary of such pairs, a
  list of strings, a list of booleans. Dictionaries are association lists in insertion
  order, which is the order \<open>items()\<close> iterates in.
\<close>

datatype rule =
    Range real real
  | Nested "(string \<times> real \<times> real) list"
  | Labels "string list"
  | Flags "bool list"

definition metric_ranges :: "(string \<times> (string \<times> rule) list) list" where
  "metric_ranges =
     [(''vehicle'',
         [(''gps'', Nested [(''lat'', 37.7, 37.8), (''lon'', - 122.5, - 122.4)]),
          (''speed'', Range 0 50),
          (''engine_temp'', Range 60 90),
          (''vibration'', Range 0.5 2.0),
          (''fuel_level'', Range 20 100)]),
      (''fixed'',
         [(''vibration'', Range 0.1 1.0),
          (''motor_temp'', Range 40 70),
          (''operational_status'', Labels [''running'', ''idle'', ''stopped'']),
          (''airflow_rate'', Range 100 500),
          (''power_consumption'', Range 500 2000)]),
      (''env'',
         [(''co_co2'', Range 0 50),
          (''methane'', Range 0 5),
          (''dust'', Range 0 100),
          (''temp_hum'', Nested [(''temp'', 10, 30), (''hum'', 40, 80)]),
          (''ground_vib'', Range 0 1)]),
      (''personnel'',
         [(''co_level'', Range 0 50),
          (''proximity_alert'', Flags [False, True]),
          (''heart_rate'', Range 60 100),
          (''location'', Nested [(''x'', 0, 1000), (''y'', 0, 1000)]),
          (''fall_detection'', Flags [False, True])])]"

subsection \<open>One telemetry record (lines 128 to 169)\<close>

datatype mvalue =
    Num real
  | Group "(string \<times> real) list"
  | Str string
  | Boolean bool

type_synonym metrics = "(string \<times> mvalue) list"

record payload =
  device_id :: string
  type :: string
  timestamp :: string
  metrics :: metrics
  status :: string

text \<open>
  A numeric draw with its jitter: \<open>random.uniform(v[0], v[1]) * (1 +
  random.uniform(-variance, variance))\<close>, the left factor drawn first.
\<close>

definition jittered :: "real \<Rightarrow> real \<Rightarrow> real \<Rightarrow> rng \<Rightarrow> real \<times> rng" where
  "jittered var lo hi g =
     (case uniform lo hi g of (x, g1) \<Rightarrow>
        (case uniform (- var) var g1 of (j, g2) \<Rightarrow> (x * (1 + j), g2)))"

text \<open>The dictionary comprehension of line 138.\<close>

fun nested :: "real \<Rightarrow> (string \<times> real \<times> real) list \<Rightarrow> (string \<times> real) list \<Rightarrow> rng
    \<Rightarrow> (string \<times> real) list \<times> rng" where
  "nested var [] acc g = (acc, g)"
| "nested var ((k, lo, hi) # items) acc g =
     (case jittered var lo hi g of (x, g') \<Rightarrow> nested var items (AList.update k x acc) g')"

text \<open>The body of the loop of line 136, by the shape of the table entry.\<close>

fun draw_metric :: "real \<Rightarrow> rule \<Rightarrow> rng \<Rightarrow> error + (mvalue \<times> rng)" where
  "draw_metric var (Nested val) g = (case nested var val [] g of (m, g') \<Rightarrow> Inr (Group m, g'))"
| "draw_metric var (Labels val) g =
     (case choice val g of Inl e \<Rightarrow> Inl e | Inr (s, g') \<Rightarrow> Inr (Str s, g'))"
| "draw_metric var (Flags val) g =
     (case choice val g of Inl e \<Rightarrow> Inl e | Inr (b, g') \<Rightarrow> Inr (Boolean b, g'))"
| "draw_metric var (Range lo hi) g = (case jittered var lo hi g of (x, g') \<Rightarrow> Inr (Num x, g'))"

text \<open>The loop of lines 136 to 144 over \<open>ranges.items()\<close>.\<close>

fun draw_metrics :: "real \<Rightarrow> (string \<times> rule) list \<Rightarrow> metrics \<Rightarrow> rng
    \<Rightarrow> error + (metrics \<times> rng)" where
  "draw_metrics var [] ms g = Inr (ms, g)"
| "draw_metrics var ((k, val) # items) ms g =
     (case draw_metric var val g of
        Inl e \<Rightarrow> Inl e
      | Inr (v, g') \<Rightarrow> draw_metrics var items (AList.update k v ms) g')"

text \<open>
  Lines 130 to 144: the type, the table \<open>metric_ranges[typ]\<close> (a \<open>KeyError\<close> when the
  type is \<open>None\<close>) and the metrics drawn from it.
\<close>

definition generate_metrics :: "config \<Rightarrow> string \<Rightarrow> rng \<Rightarrow> error + (string \<times> metrics \<times> rng)" where
  "generate_metrics config dev g =
     (case get_device_type dev of
        None \<Rightarrow> Inl KeyError
      | Some typ \<Rightarrow>
          (case map_of metric_ranges typ of
             None \<Rightarrow> Inl KeyError
           | Some ranges \<Rightarrow>
               (case draw_metrics (variance config) ranges [] g of
                  Inl e \<Rightarrow> Inl e
                | Inr (ms, g') \<Rightarrow> Inr (typ, ms, g'))))"

text \<open>\<open>metrics[k] += c\<close>: the key must be there and its value must be a number.\<close>

definition add_to :: "string \<Rightarrow> real \<Rightarrow> metrics \<Rightarrow> error + metrics" where
  "add_to k c ms =
     (case map_of ms k of
        None \<Rightarrow> Inl KeyError
      | Some (Num x) \<Rightarrow> Inr (AList.update k (Num (x + c)) ms)
      | Some (Boolean b) \<Rightarrow> Inr (AList.update k (Num ((if b then 1 else 0) + c)) ms)
      | Some _ \<Rightarrow> Inl TypeError)"

text \<open>
  Lines 146 to 159. The number is drawn only in fault mode (\<open>and\<close> does not evaluate its
  right operand otherwise). The variables \<open>device_id\<close>, \<open>mode\<close>, \<open>metrics\<close> and \<open>status\<close> of the script
  are \<open>dev\<close>, \<open>md\<close>, \<open>ms\<close> and \<open>st\<close> here (the names are taken by the keys of the
  payload and of the configuration). The
  result is the metrics, the status and the generator.
\<close>

definition inject_fault :: "string \<Rightarrow> string \<Rightarrow> metrics \<Rightarrow> rng
    \<Rightarrow> error + (metrics \<times> string \<times> rng)" where
  "inject_fault typ md ms g =
     (if md = ''fault'' then
        (case py_random g of (r, g') \<Rightarrow>
           if r < 0.2 then
             (if typ = ''vehicle'' then
                (case add_to ''engine_temp'' 50 ms of
                   Inl e \<Rightarrow> Inl e
                 | Inr m \<Rightarrow> Inr (m, ''fault_overheat'', g'))
              else if typ = ''fixed'' then
                Inr (AList.update ''operational_status'' (Str ''jammed'') ms, ''fault_jam'', g')
              else if typ = ''env'' then
                (case add_to ''methane'' 10 ms of
                   Inl e \<Rightarrow> Inl e
                 | Inr m \<Rightarrow> Inr (m, ''fault_gas'', g'))
              else if typ = ''personnel'' then
                Inr (AList.update ''fall_detection'' (Boolean True) ms, ''fault_fall'', g')
              else Inr (ms, ''normal'', g'))
           else Inr (ms, ''normal'', g'))
      else Inr (ms, ''normal'', g))"

text \<open>
  \<open>simulate_data\<close>. The argument \<open>now\<close> is \<open>datetime.utcnow().isoformat()\<close>. The result
  is the dictionary \<open>payload\<close> that the script hands to \<open>json.dumps\<close>; the JSON text is
  not modelled.
\<close>

definition simulate_data :: "config \<Rightarrow> string \<Rightarrow> string \<Rightarrow> string \<Rightarrow> rng
    \<Rightarrow> error + (payload \<times> rng)" where
  "simulate_data config now dev md g =
     (case generate_metrics config dev g of
        Inl e \<Rightarrow> Inl e
      | Inr (typ, ms, g1) \<Rightarrow>
          (case inject_fault typ md ms g1 of
             Inl e \<Rightarrow> Inl e
           | Inr (ms', st, g2) \<Rightarrow>
               Inr (\<lparr>device_id = dev, type = typ, timestamp = now @ ''Z'',
                      metrics = ms', status = st\<rparr>, g2)))"

subsection \<open>What a drawn metric is checked against\<close>

text \<open>The generator after \<open>m\<close> calls of \<open>random.random()\<close>.\<close>

definition shift :: "nat \<Rightarrow> rng \<Rightarrow> rng" where
  "shift m g = (\<lambda>n. g (n + m))"

text \<open>
  A value drawn uniformly from \<open>[lo, hi]\<close> with the number \<open>u\<close> and multiplied by the
  jitter factor \<open>1 + U(-var, var)\<close> drawn with the number \<open>j\<close>.
\<close>

definition jitter_of :: "real \<Rightarrow> real \<Rightarrow> real \<Rightarrow> real \<Rightarrow> real \<Rightarrow> real" where
  "jitter_of var lo hi u j = (lo + (hi - lo) * u) * (1 + (- var + (var - - var) * j))"

text \<open>
  A metric value fits its table entry: a number (or each field of a group) is a uniform
  draw from the declared range times a jitter factor, made from two consecutive numbers
  of the generator; a label or a flag is one of the declared options, with no factor.
\<close>

fun conforms :: "real \<Rightarrow> rng \<Rightarrow> rule \<Rightarrow> mvalue \<Rightarrow> bool" where
  "conforms var g (Range lo hi) (Num y) = (\<exists>n. y = jitter_of var lo hi (g n) (g (Suc n)))"
| "conforms var g (Nested fs) (Group ys) =
     (\<forall>(k, lo, hi)\<in>set fs. \<exists>n. map_of ys k = Some (jitter_of var lo hi (g n) (g (Suc n))))"
| "conforms var g (Labels opts) (Str s) = (s \<in> set opts)"
| "conforms var g (Flags opts) (Boolean b) = (b \<in> set opts)"
| "conforms var g _ _ = False"


text \<open>A table entry is well formed: ranges are not empty, option lists are not empty.\<close>

fun wf_rule :: "rule \<Rightarrow> bool" where
  "wf_rule (Range lo hi) = (lo \<le> hi)"
| "wf_rule (Nested fs) = (distinct (map fst fs) \<and> list_all (\<lambda>(k, lo, hi). lo \<le> hi) fs)"
| "wf_rule (Labels opts) = (opts \<noteq> [])"
| "wf_rule (Flags opts) = (opts \<noteq> [])"

definition wf_table :: "(string \<times> rule) list \<Rightarrow> bool" where
  "wf_table items = (distinct (map fst items) \<and> list_all (\<lambda>(k, r). wf_rule r) items)"

subsection \<open>The publishing loop of one device (lines 172 to 188)\<close>

text \<open>
  What the loop does to the outside, in order: a call of \<open>client.publish\<close> with its
  topic, payload and \<open>qos\<close>, or a call of \<open>time.sleep\<close> with its duration.
\<close>

datatype event = Publish string payload nat | Sleep real

text \<open>
  The loop is modelled statement by statement. A program point is the line that is
  executed next; the points of lines 177, 178 and 186 carry the value of the variable
  \<open>data\<close>, the point of line 181 carries the position of the \<open>for\<close> loop in \<open>buffer\<close>,
  and \<open>Raised\<close> is the end of the thread by an exception.
\<close>

datatype point =
    L176
  | L177 payload
  | L178 payload
  | L179
  | L181 nat
  | L183
  | L186 payload
  | L188
  | Raised error

text \<open>
  The state of the thread: the program point, the list \<open>buffer\<close>, the generator, the
  number of times the clock has been read, and the events so far (oldest first).
\<close>

record loop_state =
  pc :: point
  buffer :: "payload list"
  gen :: rng
  ticks :: nat
  trace :: "event list"

text \<open>
  One statement. \<open>clock n\<close> is what \<open>datetime.utcnow().isoformat()\<close> returns at its
  \<open>n\<close>-th call. \<open>time.sleep\<close> raises \<open>ValueError\<close> for a negative duration.
\<close>

definition step :: "config \<Rightarrow> (nat \<Rightarrow> string) \<Rightarrow> string \<Rightarrow> string \<Rightarrow> loop_state \<Rightarrow> loop_state" where
  "step config clock dev md s =
     (case pc s of
        L176 \<Rightarrow>
          (case simulate_data config (clock (ticks s)) dev md (gen s) of
             Inl e \<Rightarrow> s\<lparr>pc := Raised e\<rparr>
           | Inr (d, g') \<Rightarrow> s\<lparr>pc := L177 d, gen := g', ticks := Suc (ticks s)\<rparr>)
      | L177 d \<Rightarrow>
          (if md = ''intermittent'' then
             (case py_random (gen s) of
                (r, g') \<Rightarrow> if r < 0.3 then s\<lparr>pc := L178 d, gen := g'\<rparr>
                           else s\<lparr>pc := L186 d, gen := g'\<rparr>)
           else s\<lparr>pc := L186 d\<rparr>)
      | L178 d \<Rightarrow> s\<lparr>pc := L179, buffer := buffer s @ [d]\<rparr>
      | L179 \<Rightarrow>
          (case randint 10 30 (gen s) of
             (n, g') \<Rightarrow> s\<lparr>pc := L181 0, gen := g', trace := trace s @ [Sleep (real_of_int n)]\<rparr>)
      | L181 i \<Rightarrow>
          (if i < length (buffer s)
           then s\<lparr>pc := L181 (Suc i),
                  trace := trace s @ [Publish (''mining/'' @ dev) (buffer s ! i) 1]\<rparr>
           else s\<lparr>pc := L183\<rparr>)
      | L183 \<Rightarrow> s\<lparr>pc := L188, buffer := []\<rparr>
      | L186 d \<Rightarrow> s\<lparr>pc := L188, trace := trace s @ [Publish (''mining/'' @ dev) d 1]\<rparr>
      | L188 \<Rightarrow>
          (if frequency config < 0
           then s\<lparr>pc := Raised (ValueError ''sleep length must be non-negative'')\<rparr>
           else s\<lparr>pc := L176, trace := trace s @ [Sleep (frequency config)]\<rparr>)
      | Raised e \<Rightarrow> s)"

text \<open>\<open>n\<close> statements from a state.\<close>

fun run :: "config \<Rightarrow> (nat \<Rightarrow> string) \<Rightarrow> string \<Rightarrow> string \<Rightarrow> nat \<Rightarrow> loop_state \<Rightarrow> loop_state" where
  "run config clock dev md 0 s = s"
| "run config clock dev md (Suc n) s = run config clock dev md n (step config clock dev md s)"

text \<open>
  \<open>publish_loop\<close>: the state of the thread after \<open>n\<close> statements, started with an empty
  buffer at the head of the \<open>while True\<close> loop. The loop has no exit; the thread ends
  only by an exception.
\<close>

definition publish_loop :: "config \<Rightarrow> (nat \<Rightarrow> string) \<Rightarrow> string \<Rightarrow> string \<Rightarrow> rng \<Rightarrow> nat \<Rightarrow> loop_state" where
  "publish_loop config clock dev md g n =
     run config clock dev md n \<lparr>pc = L176, buffer = [], gen = g, ticks = 0, trace = []\<rparr>"

text \<open>What holds of the buffer at each program point.\<close>

definition buffer_inv :: "loop_state \<Rightarrow> bool" where
  "buffer_inv s =
     (case pc s of
        L176 \<Rightarrow> buffer s = []
      | L177 d \<Rightarrow> buffer s = []
      | L178 d \<Rightarrow> buffer s = []
      | L179 \<Rightarrow> length (buffer s) = 1
      | L181 i \<Rightarrow> length (buffer s) = 1 \<and> i \<le> 1
      | L183 \<Rightarrow> length (buffer s) = 1
      | L186 d \<Rightarrow> buffer s = []
      | L188 \<Rightarrow> buffer s = []
      | Raised e \<Rightarrow> length (buffer s) \<le> 1)"

text \<open>A clock that always shows the same time, for concrete runs.\<close>

definition frozen_clock :: "string \<Rightarrow> nat \<Rightarrow> string" where
  "frozen_clock t n = t"

text \<open>A record with a given time stamp, and a state about to buffer one, for concrete runs.\<close>

definition sample_payload :: "string \<Rightarrow> payload" where
  "sample_payload t =
     \<lparr>device_id = ''fan_000'', type = ''fixed'', timestamp = t, metrics = [],
      status = ''normal''\<rparr>"

definition sample_state :: loop_state where
  "sample_state =
     \<lparr>pc = L178 (sample_payload ''2026-01-01T00:00:20Z''),
      buffer = [sample_payload ''2026-01-01T00:00:10Z''],
      gen = const_draws 0, ticks = 2, trace = []\<rparr>"

section \<open>Properties\<close>

subsection \<open>Substrings and decimal strings\<close>

lemma py_in_sublist: "py_in sub s = sublist sub s"
  by (induction s) (simp_all add: sublist_Cons_right)

lemma prefix_append_disjoint:
  assumes "set ys \<inter> set sub = {}"
  shows "prefix sub (xs @ ys) = prefix sub xs"
proof
  assume "prefix sub (xs @ ys)"
  then consider "prefix sub xs" | us where "sub = xs @ us" "prefix us ys"
    by (auto simp: prefix_append)
  then show "prefix sub xs"
  proof cases
    case 1
    then show ?thesis .
  next
    case 2
    have "us = []"
    proof (rule ccontr)
      assume "us \<noteq> []"
      then have "hd us \<in> set us" by simp
      moreover have "set us \<subseteq> set ys" using 2(2) by (rule set_mono_prefix)
      moreover have "set us \<subseteq> set sub" using 2(1) by simp
      ultimately show False using assms by auto
    qed
    with 2(1) show ?thesis by simp
  qed
next
  assume "prefix sub xs"
  then show "prefix sub (xs @ ys)" by (rule prefix_prefix)
qed

lemma py_in_disjoint:
  assumes "set ys \<inter> set sub = {}" and "sub \<noteq> []"
  shows "\<not> py_in sub ys"
proof
  assume "py_in sub ys"
  then have "set sub \<subseteq> set ys"
    by (simp add: py_in_sublist set_mono_sublist)
  with assms show False by (cases sub) auto
qed

lemma py_in_append_disjoint:
  assumes "set ys \<inter> set sub = {}" and "sub \<noteq> []"
  shows "py_in sub (xs @ ys) = py_in sub xs"
proof (induction xs)
  case Nil
  show ?case using py_in_disjoint [OF assms] assms(2) by simp
next
  case (Cons x xs)
  have "prefix sub ((x # xs) @ ys) = prefix sub (x # xs)"
    using assms(1) by (rule prefix_append_disjoint)
  with Cons show ?case by simp
qed

lemma digit_in_digits: "d < 10 \<Longrightarrow> digit d \<in> set ''0123456789''"
  unfolding digit_def by (rule nth_mem) simp

lemma set_dec: "set (dec n) \<subseteq> set ''0123456789''"
proof (induction n rule: dec.induct)
  case (1 n)
  show ?case
  proof (cases "n < 10")
    case True
    then show ?thesis
      using digit_in_digits [of n] by (subst dec.simps) simp
  next
    case False
    have "digit (n mod 10) \<in> set ''0123456789''"
      by (rule digit_in_digits) simp
    with False 1 show ?thesis
      by (subst dec.simps) simp
  qed
qed

lemma set_fmt03: "set (fmt03 i) \<subseteq> set ''0123456789''"
proof -
  have "set (replicate (3 - length (dec i)) (CHR ''0'')) \<subseteq> set ''0123456789''"
    by (auto simp: set_replicate_conv_if)
  from this set_dec [of i] show ?thesis
    unfolding fmt03_def set_append by (rule Un_least)
qed

lemma py_in_fmt03:
  assumes "set ''0123456789'' \<inter> set sub = {}" and "sub \<noteq> []"
  shows "py_in sub (pre @ fmt03 i) = py_in sub pre"
proof -
  have "set (fmt03 i) \<inter> set sub = {}"
    using set_fmt03 [of i] assms(1) by blast
  then show ?thesis using assms(2) by (rule py_in_append_disjoint)
qed

lemma get_device_type_fmt03: "get_device_type (pre @ fmt03 i) = get_device_type pre"
proof -
  have "py_in tok (pre @ fmt03 i) = py_in tok pre"
    if "tok \<in> {''truck'', ''loader'', ''excavator'', ''fan'', ''vent'', ''conveyor'',
                ''env'', ''personnel''}" for tok
    using that by (intro py_in_fmt03) auto
  then show ?thesis
    unfolding get_device_type_def by simp
qed

lemma digit_val: "d < 10 \<Longrightarrow> of_char (digit d) - 48 = d"
proof -
  assume "d < 10"
  then have "d \<in> {0, 1, 2, 3, 4, 5, 6, 7, 8, 9}" by auto
  then show ?thesis unfolding digit_def by auto
qed

lemma undec_snoc: "undec (s @ [c]) = 10 * undec s + (of_char c - 48)"
  by (simp add: undec_def)

lemma undec_dec: "undec (dec n) = n"
proof (induction n rule: dec.induct)
  case (1 n)
  show ?case
  proof (cases "n < 10")
    case True
    then show ?thesis
      by (subst dec.simps) (simp add: undec_def digit_val)
  next
    case False
    then have "undec (dec n) = 10 * undec (dec (n div 10)) + (of_char (digit (n mod 10)) - 48)"
      by (subst dec.simps) (simp add: undec_snoc)
    also have "\<dots> = 10 * (n div 10) + n mod 10"
      using 1 False by (simp add: digit_val)
    finally show ?thesis by simp
  qed
qed

lemma undec_zeros: "undec (replicate k (CHR ''0'') @ s) = undec s"
proof -
  have "foldl (\<lambda>a c. 10 * a + (of_char c - 48)) 0 (replicate k (CHR ''0'')) = (0::nat)"
    by (induction k) simp_all
  then show ?thesis by (simp add: undec_def)
qed

lemma undec_fmt03: "undec (fmt03 i) = i"
  by (simp add: fmt03_def undec_zeros undec_dec)

lemma fmt03_inj: "fmt03 i = fmt03 j \<longleftrightarrow> i = j"
  using undec_fmt03 by metis


subsection \<open>The identifier lists\<close>

lemma length_block: "length (block p q) = q"
  by (simp add: block_def)

lemma prefix_block: "x \<in> set (block p q) \<Longrightarrow> prefix p x"
  by (auto simp: block_def)

lemma distinct_block: "distinct (block p q)"
  by (simp add: block_def distinct_map inj_on_def fmt03_inj)

lemma blocks_Nil: "blocks [] q = []"
  by (simp add: blocks_def)

lemma blocks_Cons: "blocks (p # ps) q = block p q @ blocks ps q"
  by (simp add: blocks_def)

lemma blocks_append: "blocks (ps @ ps') q = blocks ps q @ blocks ps' q"
  by (simp add: blocks_def)

lemma length_blocks: "length (blocks ps q) = length ps * q"
  by (induction ps) (simp_all add: blocks_Nil blocks_Cons length_block)

lemma in_blocks: "x \<in> set (blocks ps q) \<Longrightarrow> \<exists>p\<in>set ps. \<exists>i<q. x = p @ fmt03 i"
  by (fastforce simp: blocks_def block_def)

lemma no_prefix_blocks:
  assumes "\<forall>p'\<in>set ps. \<forall>s. \<not> prefix p (p' @ s)"
  shows "\<forall>x\<in>set (blocks ps q). \<not> prefix p x"
  using assms by (auto dest!: in_blocks)

lemma distinct_blocks:
  assumes "distinct ps"
    and "\<forall>p\<in>set ps. \<forall>p'\<in>set ps. p \<noteq> p' \<longrightarrow> (\<forall>s. \<not> prefix p (p' @ s))"
  shows "distinct (blocks ps q)"
  using assms
proof (induction ps)
  case Nil
  show ?case by (simp add: blocks_Nil)
next
  case (Cons p ps)
  have "\<forall>x\<in>set (blocks ps q). \<not> prefix p x"
    using Cons.prems by (intro no_prefix_blocks) auto
  then have "set (block p q) \<inter> set (blocks ps q) = {}"
    by (auto dest: prefix_block)
  moreover have "distinct (blocks ps q)"
    using Cons by auto
  ultimately show ?case
    by (simp add: blocks_Cons distinct_block)
qed

lemma filter_take_mid:
  assumes "\<forall>x\<in>set A. \<not> P x" and "\<forall>x\<in>set B. P x" and "\<forall>x\<in>set C. \<not> P x"
  shows "filter P (take m (A @ B @ C)) = take (m - length A) B"
proof -
  have a: "filter P (take m A) = []"
    using assms(1) by (auto simp: filter_empty_conv dest: in_set_takeD)
  have b: "filter P (take k B) = take k B" for k
    using assms(2) by (auto simp: filter_id_conv dest: in_set_takeD)
  have c: "filter P (take k C) = []" for k
    using assms(3) by (auto simp: filter_empty_conv dest: in_set_takeD)
  show ?thesis by (simp add: a b c)
qed

lemma count_blocks:
  assumes "\<forall>p'\<in>set (A @ C). \<forall>s. \<not> prefix p (p' @ s)"
  shows "subtype_count p (take m (blocks (A @ p # C) q)) = min q (m - length A * q)"
proof -
  have a: "\<forall>x\<in>set (blocks A q). \<not> prefix p x"
    using assms by (intro no_prefix_blocks) auto
  have c: "\<forall>x\<in>set (blocks C q). \<not> prefix p x"
    using assms by (intro no_prefix_blocks) auto
  have b: "\<forall>x\<in>set (block p q). prefix p x"
    by (auto dest: prefix_block)
  have "filter (prefix p) (take m (blocks A q @ block p q @ blocks C q))
          = take (m - length (blocks A q)) (block p q)"
    using a b c by (rule filter_take_mid)
  then show ?thesis
    by (simp add: subtype_count_def blocks_append blocks_Cons length_block length_blocks
        min.commute)
qed

lemma count_blocks_split:
  assumes "\<forall>p'\<in>set (A @ C). \<forall>s. \<not> prefix p (p' @ s)" and "length A = j"
  shows "subtype_count p (take n (blocks (A @ p # C) (n div k + 1))) = block_split k n j"
  using count_blocks [OF assms(1)] assms(2) by (simp add: block_split_def)

lemma in_comprehensionE:
  assumes "d \<in> set (concat (map (\<lambda>typ. map (f typ) r) ts))"
  obtains t i where "t \<in> set ts" and "i \<in> set r" and "d = f t i"
  using assms by auto

lemma py_slice_to_nonneg: "0 \<le> n \<Longrightarrow> py_slice_to n xs = take (nat n) xs"
  by (simp add: py_slice_to_def)

lemma set_py_slice_to: "set (py_slice_to n xs) \<subseteq> set xs"
  by (auto simp: py_slice_to_def dest: in_set_takeD)

lemma py_range_succ_div:
  fixes n k :: int
  assumes "0 < k" and "0 \<le> n"
  shows "py_range (n div k + 1) = [0..<nat n div nat k + 1]"
  using assms
  by (simp add: py_range_def nat_add_distrib nat_div_distrib pos_imp_zdiv_nonneg_iff del: upt_Suc)

lemma vehicles_blocks:
  assumes "0 \<le> num_vehicles config"
  shows "vehicles config = take (nat (num_vehicles config))
     (blocks [''haul_truck_'', ''loader_'', ''excavator_''] (nat (num_vehicles config) div 3 + 1))"
  using assms py_range_succ_div [of 3 "num_vehicles config"]
  by (simp add: vehicles_def py_slice_to_nonneg block_def blocks_def del: upt_Suc)

lemma fixed_assets_blocks:
  assumes "0 \<le> num_fixed_assets config"
  shows "fixed_assets config = take (nat (num_fixed_assets config))
     (blocks [''fan_'', ''vent_system_'', ''conveyor_''] (nat (num_fixed_assets config) div 3 + 1))"
  using assms py_range_succ_div [of 3 "num_fixed_assets config"]
  by (simp add: fixed_assets_def py_slice_to_nonneg block_def blocks_def del: upt_Suc)

lemma env_sensors_blocks:
  assumes "0 \<le> num_env_sensors config"
  shows "env_sensors config = take (nat (num_env_sensors config))
     (blocks [''env_co_co2_'', ''env_methane_'', ''env_dust_'', ''env_temp_hum_'',
        ''env_ground_stab_''] (nat (num_env_sensors config) div 5 + 1))"
  using assms py_range_succ_div [of 5 "num_env_sensors config"]
  by (simp add: env_sensors_def py_slice_to_nonneg block_def blocks_def del: upt_Suc)

lemma personnel_blocks:
  "personnel config = block ''personnel_'' (nat (num_personnel config))"
  by (simp add: personnel_def py_range_def block_def)

lemma length_take_blocks:
  assumes "0 < k" and "length ps = k"
  shows "length (take n (blocks ps (n div k + 1))) = n"
proof -
  have "n < k * (n div k + 1)"
    using assms(1) by (metis Suc_eq_plus1 dividend_less_times_div mult_Suc_right add.commute)
  then show ?thesis
    by (simp add: length_blocks assms(2))
qed

lemma vehicles_props:
  assumes "0 \<le> num_vehicles config"
  defines "n \<equiv> nat (num_vehicles config)"
  shows "length (vehicles config) = n" and "distinct (vehicles config)"
    and "subtype_count ''haul_truck_'' (vehicles config) = block_split 3 n 0"
    and "subtype_count ''loader_'' (vehicles config) = block_split 3 n 1"
    and "subtype_count ''excavator_'' (vehicles config) = block_split 3 n 2"
proof -
  note eq = vehicles_blocks [OF assms(1), folded n_def]
  show "length (vehicles config) = n"
    unfolding eq by (rule length_take_blocks) simp_all
  show "distinct (vehicles config)"
    unfolding eq by (rule distinct_take, rule distinct_blocks) simp_all
  show "subtype_count ''haul_truck_'' (vehicles config) = block_split 3 n 0"
    using count_blocks_split [of "[]" "[''loader_'', ''excavator_'']" "''haul_truck_''" 0 n 3]
    by (simp add: eq)
  show "subtype_count ''loader_'' (vehicles config) = block_split 3 n 1"
    using count_blocks_split [of "[''haul_truck_'']" "[''excavator_'']" "''loader_''" 1 n 3]
    by (simp add: eq)
  show "subtype_count ''excavator_'' (vehicles config) = block_split 3 n 2"
    using count_blocks_split [of "[''haul_truck_'', ''loader_'']" "[]" "''excavator_''" 2 n 3]
    by (simp add: eq)
qed

lemma fixed_assets_props:
  assumes "0 \<le> num_fixed_assets config"
  defines "n \<equiv> nat (num_fixed_assets config)"
  shows "length (fixed_assets config) = n" and "distinct (fixed_assets config)"
    and "subtype_count ''fan_'' (fixed_assets config) = block_split 3 n 0"
    and "subtype_count ''vent_system_'' (fixed_assets config) = block_split 3 n 1"
    and "subtype_count ''conveyor_'' (fixed_assets config) = block_split 3 n 2"
proof -
  note eq = fixed_assets_blocks [OF assms(1), folded n_def]
  show "length (fixed_assets config) = n"
    unfolding eq by (rule length_take_blocks) simp_all
  show "distinct (fixed_assets config)"
    unfolding eq by (rule distinct_take, rule distinct_blocks) simp_all
  show "subtype_count ''fan_'' (fixed_assets config) = block_split 3 n 0"
    using count_blocks_split [of "[]" "[''vent_system_'', ''conveyor_'']" "''fan_''" 0 n 3]
    by (simp add: eq)
  show "subtype_count ''vent_system_'' (fixed_assets config) = block_split 3 n 1"
    using count_blocks_split [of "[''fan_'']" "[''conveyor_'']" "''vent_system_''" 1 n 3]
    by (simp add: eq)
  show "subtype_count ''conveyor_'' (fixed_assets config) = block_split 3 n 2"
    using count_blocks_split [of "[''fan_'', ''vent_system_'']" "[]" "''conveyor_''" 2 n 3]
    by (simp add: eq)
qed

lemma env_sensors_props:
  assumes "0 \<le> num_env_sensors config"
  defines "n \<equiv> nat (num_env_sensors config)"
  shows "length (env_sensors config) = n" and "distinct (env_sensors config)"
    and "subtype_count ''env_co_co2_'' (env_sensors config) = block_split 5 n 0"
    and "subtype_count ''env_methane_'' (env_sensors config) = block_split 5 n 1"
    and "subtype_count ''env_dust_'' (env_sensors config) = block_split 5 n 2"
    and "subtype_count ''env_temp_hum_'' (env_sensors config) = block_split 5 n 3"
    and "subtype_count ''env_ground_stab_'' (env_sensors config) = block_split 5 n 4"
proof -
  note eq = env_sensors_blocks [OF assms(1), folded n_def]
  show "length (env_sensors config) = n"
    unfolding eq by (rule length_take_blocks) simp_all
  show "distinct (env_sensors config)"
    unfolding eq by (rule distinct_take, rule distinct_blocks) simp_all
  show "subtype_count ''env_co_co2_'' (env_sensors config) = block_split 5 n 0"
    using count_blocks_split [of "[]" "[''env_methane_'', ''env_dust_'', ''env_temp_hum_'', ''env_ground_stab_'']" "''env_co_co2_''" 0 n 5]
    by (simp add: eq)
  show "subtype_count ''env_methane_'' (env_sensors config) = block_split 5 n 1"
    using count_blocks_split [of "[''env_co_co2_'']" "[''env_dust_'', ''env_temp_hum_'', ''env_ground_stab_'']" "''env_methane_''" 1 n 5]
    by (simp add: eq)
  show "subtype_count ''env_dust_'' (env_sensors config) = block_split 5 n 2"
    using count_blocks_split [of "[''env_co_co2_'', ''env_methane_'']" "[''env_temp_hum_'', ''env_ground_stab_'']" "''env_dust_''" 2 n 5]
    by (simp add: eq)
  show "subtype_count ''env_temp_hum_'' (env_sensors config) = block_split 5 n 3"
    using count_blocks_split [of "[''env_co_co2_'', ''env_methane_'', ''env_dust_'']" "[''env_ground_stab_'']" "''env_temp_hum_''" 3 n 5]
    by (simp add: eq)
  show "subtype_count ''env_ground_stab_'' (env_sensors config) = block_split 5 n 4"
    using count_blocks_split [of "[''env_co_co2_'', ''env_methane_'', ''env_dust_'', ''env_temp_hum_'']" "[]" "''env_ground_stab_''" 4 n 5]
    by (simp add: eq)
qed

lemma personnel_props:
  shows "length (personnel config) = nat (num_personnel config)"
    and "distinct (personnel config)"
  by (simp_all add: personnel_blocks length_block distinct_block)

lemma in_py_range: "i \<in> set (py_range (k + 1)) \<Longrightarrow> int i \<le> k"
  by (auto simp: py_range_def)

lemma vehicles_form:
  assumes "d \<in> set (vehicles config)"
  shows "\<exists>typ\<in>set [''haul_truck'', ''loader'', ''excavator''].
           \<exists>i. int i \<le> num_vehicles config div 3 \<and> d = typ @ ''_'' @ fmt03 i"
proof -
  have "d \<in> set [typ @ ''_'' @ fmt03 i.
          typ \<leftarrow> [''haul_truck'', ''loader'', ''excavator''],
          i \<leftarrow> py_range (num_vehicles config div 3 + 1)]"
    using assms unfolding vehicles_def by (rule set_py_slice_to [THEN subsetD])
  then obtain t i where t: "t \<in> set [''haul_truck'', ''loader'', ''excavator'']"
    and i: "i \<in> set (py_range (num_vehicles config div 3 + 1))"
    and d: "d = t @ ''_'' @ fmt03 i"
    by (rule in_comprehensionE)
  from t in_py_range [OF i] d show ?thesis
    by blast
qed

lemma fixed_assets_form:
  assumes "d \<in> set (fixed_assets config)"
  shows "\<exists>typ\<in>set [''fan'', ''vent_system'', ''conveyor''].
           \<exists>i. int i \<le> num_fixed_assets config div 3 \<and> d = typ @ ''_'' @ fmt03 i"
proof -
  have "d \<in> set [typ @ ''_'' @ fmt03 i.
          typ \<leftarrow> [''fan'', ''vent_system'', ''conveyor''],
          i \<leftarrow> py_range (num_fixed_assets config div 3 + 1)]"
    using assms unfolding fixed_assets_def by (rule set_py_slice_to [THEN subsetD])
  then obtain t i where t: "t \<in> set [''fan'', ''vent_system'', ''conveyor'']"
    and i: "i \<in> set (py_range (num_fixed_assets config div 3 + 1))"
    and d: "d = t @ ''_'' @ fmt03 i"
    by (rule in_comprehensionE)
  from t in_py_range [OF i] d show ?thesis
    by blast
qed

lemma env_sensors_form:
  assumes "d \<in> set (env_sensors config)"
  shows "\<exists>typ\<in>set [''co_co2'', ''methane'', ''dust'', ''temp_hum'', ''ground_stab''].
           \<exists>i. int i \<le> num_env_sensors config div 5 \<and> d = ''env_'' @ typ @ ''_'' @ fmt03 i"
proof -
  have "d \<in> set [''env_'' @ typ @ ''_'' @ fmt03 i.
          typ \<leftarrow> [''co_co2'', ''methane'', ''dust'', ''temp_hum'', ''ground_stab''],
          i \<leftarrow> py_range (num_env_sensors config div 5 + 1)]"
    using assms unfolding env_sensors_def by (rule set_py_slice_to [THEN subsetD])
  then obtain t i where t: "t \<in> set [''co_co2'', ''methane'', ''dust'', ''temp_hum'', ''ground_stab'']"
    and i: "i \<in> set (py_range (num_env_sensors config div 5 + 1))"
    and d: "d = ''env_'' @ t @ ''_'' @ fmt03 i"
    by (rule in_comprehensionE)
  from t in_py_range [OF i] d show ?thesis
    by blast
qed

lemma personnel_form:
  assumes "d \<in> set (personnel config)"
  shows "\<exists>i. int i < num_personnel config \<and> d = ''personnel_'' @ fmt03 i"
proof -
  from assms obtain i where "i < nat (num_personnel config)" and "d = ''personnel_'' @ fmt03 i"
    unfolding personnel_def py_range_def by auto
  then show ?thesis
    by (intro exI [of _ i]) auto
qed


subsection \<open>Start-up checks\<close>

text \<open>
  Claim C9. A configured mode outside \<open>normal\<close>, \<open>fault\<close>, \<open>intermittent\<close> makes
  the script raise \<open>ValueError\<close> (the script's error for an invalid configuration) at
  lines 49 and 50, before the client is created and before any thread is started: start-up
  returns the error and no \<open>started\<close> value. For each of the three values the
  validation passes.
\<close>

theorem mode_validation:
  "(mode config \<notin> {''normal'', ''fault'', ''intermittent''} \<longrightarrow>
      validate_mode config = Inl (ValueError mode_message) \<and>
      startup config = Inl (ValueError mode_message)) \<and>
   (mode config \<in> {''normal'', ''fault'', ''intermittent''} \<longrightarrow>
      validate_mode config = Inr ())"
  by (simp add: validate_mode_def startup_def)

text \<open>
  The mode \<open>turbo\<close> is refused; the default mode is accepted.
\<close>

theorem mode_validation_witness:
  "mode (default_config\<lparr>mode := ''turbo''\<rparr>) \<notin> {''normal'', ''fault'', ''intermittent''} \<and>
   startup (default_config\<lparr>mode := ''turbo''\<rparr>) = Inl (ValueError mode_message) \<and>
   mode default_config \<in> {''normal'', ''fault'', ''intermittent''} \<and>
   validate_mode default_config = Inr ()"
proof -
  have bad: "mode (default_config\<lparr>mode := ''turbo''\<rparr>) \<notin> {''normal'', ''fault'', ''intermittent''}"
    by simp
  have good: "mode default_config \<in> {''normal'', ''fault'', ''intermittent''}"
    by (simp add: default_config_def)
  from bad good
    mode_validation [of "default_config\<lparr>mode := ''turbo''\<rparr>", THEN conjunct1, THEN mp, OF bad]
    mode_validation [of default_config, THEN conjunct2, THEN mp, OF good]
  show ?thesis by blast
qed

lemma startup_ok:
  "validate_mode config = Inr () \<Longrightarrow> connect_client config = Inr c \<Longrightarrow>
     startup config = Inr \<lparr>client = c, threads = all_devices config\<rparr>"
  by (simp add: startup_def)

text \<open>
  Claim C5, as stated, fails: with \<open>aws_endpoint\<close> set, no certificate paths and the
  default broker \<open>localhost\<close>, the guard of line 58 is false, nothing is raised and the
  script connects to the local broker.
\<close>

theorem tls_check_counterexample:
  "truthy (aws_endpoint (default_config\<lparr>aws_endpoint := Some ''a1.iot.eu-west-1.amazonaws.com''\<rparr>)) \<and>
   \<not> truthy (cert (default_config\<lparr>aws_endpoint := Some ''a1.iot.eu-west-1.amazonaws.com''\<rparr>)) \<and>
   startup (default_config\<lparr>aws_endpoint := Some ''a1.iot.eu-west-1.amazonaws.com''\<rparr>) =
     Inr \<lparr>client = \<lparr>ca_certs = None, certfile = None, keyfile = None,
                      endpoint = Some ''localhost'', mqtt_port = 1883\<rparr>,
          threads = all_devices (default_config\<lparr>aws_endpoint := Some ''a1.iot.eu-west-1.amazonaws.com''\<rparr>)\<rparr>"
  by (simp add: startup_def validate_mode_def connect_client_def truthy_def default_config_def)

text \<open>
  Claim C5, amended. The certificate check is guarded by \<open>broker == 'aws'\<close> as well as by
  \<open>aws_endpoint\<close>: when both hold and one of \<open>cert\<close>, \<open>key\<close>, \<open>ca\<close> is missing
  (\<open>None\<close> or empty), the script raises \<open>ValueError\<close> and start-up fails; when both hold
  and all three are given, TLS is set up with them and the endpoint is \<open>aws_endpoint\<close> on
  port 8883; when the broker is not \<open>aws\<close> or \<open>aws_endpoint\<close> is unset, the certificate
  paths are not looked at and the local broker settings are used.
\<close>

theorem tls_check:
  "(broker config = ''aws'' \<and> truthy (aws_endpoint config) \<and>
      \<not> (truthy (cert config) \<and> truthy (key config) \<and> truthy (ca config)) \<longrightarrow>
        connect_client config = Inl (ValueError ''AWS IoT requires cert, key, and CA paths'') \<and>
        (\<exists>msg. startup config = Inl (ValueError msg))) \<and>
   (broker config = ''aws'' \<and> truthy (aws_endpoint config) \<and>
      truthy (cert config) \<and> truthy (key config) \<and> truthy (ca config) \<longrightarrow>
        connect_client config =
          Inr \<lparr>ca_certs = ca config, certfile = cert config, keyfile = key config,
               endpoint = aws_endpoint config, mqtt_port = 8883\<rparr>) \<and>
   (broker config \<noteq> ''aws'' \<or> \<not> truthy (aws_endpoint config) \<longrightarrow>
        connect_client config =
          Inr \<lparr>ca_certs = None, certfile = None, keyfile = None,
               endpoint = Some (broker config), mqtt_port = port config\<rparr>)"
  by (auto simp: connect_client_def startup_def validate_mode_def)

text \<open>
  One configuration for each of the three cases.
\<close>

theorem tls_check_witness:
  "connect_client (default_config\<lparr>broker := ''aws'', aws_endpoint := Some ''a1.iot.amazonaws.com'',
       cert := Some ''device.pem''\<rparr>)
     = Inl (ValueError ''AWS IoT requires cert, key, and CA paths'') \<and>
   connect_client (default_config\<lparr>broker := ''aws'', aws_endpoint := Some ''a1.iot.amazonaws.com'',
       cert := Some ''device.pem'', key := Some ''device.key'', ca := Some ''root.pem''\<rparr>)
     = Inr \<lparr>ca_certs = Some ''root.pem'', certfile = Some ''device.pem'',
            keyfile = Some ''device.key'', endpoint = Some ''a1.iot.amazonaws.com'',
            mqtt_port = 8883\<rparr> \<and>
   connect_client (default_config\<lparr>aws_endpoint := Some ''a1.iot.amazonaws.com''\<rparr>)
     = Inr \<lparr>ca_certs = None, certfile = None, keyfile = None,
            endpoint = Some ''localhost'', mqtt_port = 1883\<rparr>"
proof -
  let ?c1 = "default_config\<lparr>broker := ''aws'', aws_endpoint := Some ''a1.iot.amazonaws.com'',
       cert := Some ''device.pem''\<rparr>"
  let ?c2 = "default_config\<lparr>broker := ''aws'', aws_endpoint := Some ''a1.iot.amazonaws.com'',
       cert := Some ''device.pem'', key := Some ''device.key'', ca := Some ''root.pem''\<rparr>"
  let ?c3 = "default_config\<lparr>aws_endpoint := Some ''a1.iot.amazonaws.com''\<rparr>"
  have h1: "broker ?c1 = ''aws'' \<and> truthy (aws_endpoint ?c1) \<and>
      \<not> (truthy (cert ?c1) \<and> truthy (key ?c1) \<and> truthy (ca ?c1))"
    by (simp add: truthy_def default_config_def)
  have h2: "broker ?c2 = ''aws'' \<and> truthy (aws_endpoint ?c2) \<and>
      truthy (cert ?c2) \<and> truthy (key ?c2) \<and> truthy (ca ?c2)"
    by (simp add: truthy_def)
  have h3: "broker ?c3 \<noteq> ''aws'' \<or> \<not> truthy (aws_endpoint ?c3)"
    by (simp add: default_config_def)
  have "connect_client ?c1 = Inl (ValueError ''AWS IoT requires cert, key, and CA paths'')"
    using tls_check [of ?c1] h1 by blast
  moreover have "connect_client ?c2 = Inr \<lparr>ca_certs = ca ?c2, certfile = cert ?c2,
      keyfile = key ?c2, endpoint = aws_endpoint ?c2, mqtt_port = 8883\<rparr>"
    using tls_check [of ?c2] h2 by blast
  moreover have "connect_client ?c3 = Inr \<lparr>ca_certs = None, certfile = None, keyfile = None,
      endpoint = Some (broker ?c3), mqtt_port = port ?c3\<rparr>"
    using tls_check [of ?c3] h3 by blast
  ultimately show ?thesis by (simp add: default_config_def)
qed

lemma neg_count_empty:
  fixes n k :: int
  assumes "n < 0" and "0 < k"
  shows "py_slice_to n [f t i. t \<leftarrow> ts, i \<leftarrow> py_range (n div k + 1)] = []"
proof -
  have "n div k < 0" using assms by (simp add: div_neg_pos_less0)
  then have "py_range (n div k + 1) = []" by (simp add: py_range_def)
  then show ?thesis by (simp add: py_slice_to_def)
qed

lemma negative_empty:
  "num_vehicles config < 0 \<Longrightarrow> vehicles config = []"
  "num_fixed_assets config < 0 \<Longrightarrow> fixed_assets config = []"
  "num_env_sensors config < 0 \<Longrightarrow> env_sensors config = []"
  "num_personnel config < 0 \<Longrightarrow> personnel config = []"
  unfolding vehicles_def fixed_assets_def env_sensors_def
  by (simp_all add: neg_count_empty personnel_def py_range_def py_slice_to_def)

text \<open>
  Claim C4, as stated, fails: with \<open>num_vehicles = -1\<close> nothing is raised; the vehicle
  list is empty and start-up goes on to start the threads of the other devices.
\<close>

theorem negative_count_counterexample:
  "num_vehicles (default_config\<lparr>num_vehicles := - 1\<rparr>) < 0 \<and>
   vehicles (default_config\<lparr>num_vehicles := - 1\<rparr>) = [] \<and>
   startup (default_config\<lparr>num_vehicles := - 1\<rparr>) =
     Inr \<lparr>client = \<lparr>ca_certs = None, certfile = None, keyfile = None,
                      endpoint = Some ''localhost'', mqtt_port = 1883\<rparr>,
          threads = all_devices (default_config\<lparr>num_vehicles := - 1\<rparr>)\<rparr>"
  by (simp add: startup_def validate_mode_def connect_client_def truthy_def default_config_def
      vehicles_def py_range_def py_slice_to_def)

text \<open>
  Claim C4, amended. A negative count is not an error: \<open>range\<close> of a non-positive number
  is empty, so the category gets no identifier, and start-up succeeds whenever the mode and
  the connection settings are accepted, whatever the counts are.
\<close>

theorem negative_count:
  "(num_vehicles config < 0 \<longrightarrow> vehicles config = []) \<and>
   (num_fixed_assets config < 0 \<longrightarrow> fixed_assets config = []) \<and>
   (num_env_sensors config < 0 \<longrightarrow> env_sensors config = []) \<and>
   (num_personnel config < 0 \<longrightarrow> personnel config = []) \<and>
   (validate_mode config = Inr () \<and> connect_client config = Inr c \<longrightarrow>
      startup config = Inr \<lparr>client = c, threads = all_devices config\<rparr>)"
  by (simp add: negative_empty startup_ok)


text \<open>
  All four counts negative: no device at all, and start-up succeeds.
\<close>

theorem negative_count_witness:
  "num_vehicles (default_config\<lparr>num_vehicles := - 2, num_fixed_assets := - 1,
      num_env_sensors := - 7, num_personnel := - 3\<rparr>) < 0 \<and>
   all_devices (default_config\<lparr>num_vehicles := - 2, num_fixed_assets := - 1,
      num_env_sensors := - 7, num_personnel := - 3\<rparr>) = [] \<and>
   startup (default_config\<lparr>num_vehicles := - 2, num_fixed_assets := - 1,
      num_env_sensors := - 7, num_personnel := - 3\<rparr>) =
     Inr \<lparr>client = \<lparr>ca_certs = None, certfile = None, keyfile = None,
                      endpoint = Some ''localhost'', mqtt_port = 1883\<rparr>,
          threads = []\<rparr>"
proof -
  let ?c = "default_config\<lparr>num_vehicles := - 2, num_fixed_assets := - 1,
      num_env_sensors := - 7, num_personnel := - 3\<rparr>"
  let ?conn = "\<lparr>ca_certs = None, certfile = None, keyfile = None,
      endpoint = Some ''localhost'', mqtt_port = 1883\<rparr>"
  note t = negative_count [of ?c ?conn]
  have v: "num_vehicles ?c < 0" and f: "num_fixed_assets ?c < 0"
    and e: "num_env_sensors ?c < 0" and p: "num_personnel ?c < 0"
    by simp_all
  have m: "validate_mode ?c = Inr () \<and> connect_client ?c = Inr ?conn"
    by (simp add: validate_mode_def connect_client_def truthy_def default_config_def)
  have "vehicles ?c = []" using t v by blast
  moreover have "fixed_assets ?c = []" using t f by blast
  moreover have "env_sensors ?c = []" using t e by blast
  moreover have "personnel ?c = []" using t p by blast
  ultimately have a: "all_devices ?c = []"
    unfolding all_devices_def by simp
  have "startup ?c = Inr \<lparr>client = ?conn, threads = all_devices ?c\<rparr>"
    using t m by blast
  with a v show ?thesis by simp
qed

subsection \<open>Device types of the generated identifiers\<close>

lemma prefixes_resolve:
  "get_device_type ''haul_truck_'' = Some ''vehicle''"
  "get_device_type ''loader_'' = Some ''vehicle''"
  "get_device_type ''excavator_'' = Some ''vehicle''"
  "get_device_type ''fan_'' = Some ''fixed''"
  "get_device_type ''vent_system_'' = Some ''fixed''"
  "get_device_type ''conveyor_'' = Some ''fixed''"
  "get_device_type ''env_co_co2_'' = Some ''env''"
  "get_device_type ''env_methane_'' = Some ''env''"
  "get_device_type ''env_dust_'' = Some ''env''"
  "get_device_type ''env_temp_hum_'' = Some ''env''"
  "get_device_type ''env_ground_stab_'' = Some ''env''"
  "get_device_type ''personnel_'' = Some ''personnel''"
  by (simp_all add: get_device_type_def)

lemma vehicles_resolve:
  assumes "d \<in> set (vehicles config)"
  shows "get_device_type d = Some ''vehicle''"
proof -
  from vehicles_form [OF assms] obtain t i
    where t: "t \<in> set [''haul_truck'', ''loader'', ''excavator'']"
      and d: "d = t @ ''_'' @ fmt03 i"
    by blast
  from t have "t = ''haul_truck'' \<or> t = ''loader'' \<or> t = ''excavator''"
    by simp
  then show ?thesis
  proof (elim disjE)
    assume "t = ''haul_truck''"
    with d have "d = ''haul_truck_'' @ fmt03 i"
      by simp
    then show ?thesis
      by (simp only: get_device_type_fmt03 prefixes_resolve)
  next
    assume "t = ''loader''"
    with d have "d = ''loader_'' @ fmt03 i"
      by simp
    then show ?thesis
      by (simp only: get_device_type_fmt03 prefixes_resolve)
  next
    assume "t = ''excavator''"
    with d have "d = ''excavator_'' @ fmt03 i"
      by simp
    then show ?thesis
      by (simp only: get_device_type_fmt03 prefixes_resolve)
  qed
qed

lemma fixed_assets_resolve:
  assumes "d \<in> set (fixed_assets config)"
  shows "get_device_type d = Some ''fixed''"
proof -
  from fixed_assets_form [OF assms] obtain t i
    where t: "t \<in> set [''fan'', ''vent_system'', ''conveyor'']"
      and d: "d = t @ ''_'' @ fmt03 i"
    by blast
  from t have "t = ''fan'' \<or> t = ''vent_system'' \<or> t = ''conveyor''"
    by simp
  then show ?thesis
  proof (elim disjE)
    assume "t = ''fan''"
    with d have "d = ''fan_'' @ fmt03 i"
      by simp
    then show ?thesis
      by (simp only: get_device_type_fmt03 prefixes_resolve)
  next
    assume "t = ''vent_system''"
    with d have "d = ''vent_system_'' @ fmt03 i"
      by simp
    then show ?thesis
      by (simp only: get_device_type_fmt03 prefixes_resolve)
  next
    assume "t = ''conveyor''"
    with d have "d = ''conveyor_'' @ fmt03 i"
      by simp
    then show ?thesis
      by (simp only: get_device_type_fmt03 prefixes_resolve)
  qed
qed

lemma env_sensors_resolve:
  assumes "d \<in> set (env_sensors config)"
  shows "get_device_type d = Some ''env''"
proof -
  from env_sensors_form [OF assms] obtain t i
    where t: "t \<in> set [''co_co2'', ''methane'', ''dust'', ''temp_hum'', ''ground_stab'']"
      and d: "d = ''env_'' @ t @ ''_'' @ fmt03 i"
    by blast
  from t have "t = ''co_co2'' \<or> t = ''methane'' \<or> t = ''dust'' \<or> t = ''temp_hum'' \<or> t = ''ground_stab''"
    by simp
  then show ?thesis
  proof (elim disjE)
    assume "t = ''co_co2''"
    with d have "d = ''env_co_co2_'' @ fmt03 i"
      by simp
    then show ?thesis
      by (simp only: get_device_type_fmt03 prefixes_resolve)
  next
    assume "t = ''methane''"
    with d have "d = ''env_methane_'' @ fmt03 i"
      by simp
    then show ?thesis
      by (simp only: get_device_type_fmt03 prefixes_resolve)
  next
    assume "t = ''dust''"
    with d have "d = ''env_dust_'' @ fmt03 i"
      by simp
    then show ?thesis
      by (simp only: get_device_type_fmt03 prefixes_resolve)
  next
    assume "t = ''temp_hum''"
    with d have "d = ''env_temp_hum_'' @ fmt03 i"
      by simp
    then show ?thesis
      by (simp only: get_device_type_fmt03 prefixes_resolve)
  next
    assume "t = ''ground_stab''"
    with d have "d = ''env_ground_stab_'' @ fmt03 i"
      by simp
    then show ?thesis
      by (simp only: get_device_type_fmt03 prefixes_resolve)
  qed
qed

lemma personnel_resolve:
  assumes "d \<in> set (personnel config)"
  shows "get_device_type d = Some ''personnel''"
proof -
  from personnel_form [OF assms] obtain i where "d = ''personnel_'' @ fmt03 i"
    by blast
  then show ?thesis
    by (simp only: get_device_type_fmt03 prefixes_resolve)
qed

text \<open>
  Claim C6. Every identifier the script generates gets a device type from
  \<open>get_device_type\<close> (never \<open>None\<close>), and the type is that of the list the identifier was
  generated for: \<open>vehicle\<close> for the vehicle subtypes, \<open>fixed\<close> for the fixed assets,
  \<open>env\<close> for the environmental sensors, \<open>personnel\<close> for the personnel. The function
  is a function of the identifier alone.
\<close>

theorem registry_ids_resolve:
  "(d \<in> set (vehicles config) \<longrightarrow> get_device_type d = Some ''vehicle'') \<and>
   (d \<in> set (fixed_assets config) \<longrightarrow> get_device_type d = Some ''fixed'') \<and>
   (d \<in> set (env_sensors config) \<longrightarrow> get_device_type d = Some ''env'') \<and>
   (d \<in> set (personnel config) \<longrightarrow> get_device_type d = Some ''personnel'')"
  using vehicles_resolve fixed_assets_resolve env_sensors_resolve personnel_resolve
  by blast


text \<open>One identifier of each category of the default configuration.\<close>

theorem registry_ids_resolve_witness:
  "''loader_001'' \<in> set (vehicles default_config) \<and>
   get_device_type ''loader_001'' = Some ''vehicle'' \<and>
   ''vent_system_002'' \<in> set (fixed_assets default_config) \<and>
   get_device_type ''vent_system_002'' = Some ''fixed'' \<and>
   ''env_temp_hum_003'' \<in> set (env_sensors default_config) \<and>
   get_device_type ''env_temp_hum_003'' = Some ''env'' \<and>
   ''personnel_014'' \<in> set (personnel default_config) \<and>
   get_device_type ''personnel_014'' = Some ''personnel''"
proof -
  have v: "''loader_001'' \<in> set (vehicles default_config)" by code_simp
  have f: "''vent_system_002'' \<in> set (fixed_assets default_config)" by code_simp
  have e: "''env_temp_hum_003'' \<in> set (env_sensors default_config)" by code_simp
  have p: "''personnel_014'' \<in> set (personnel default_config)" by code_simp
  from v f e p
    registry_ids_resolve [of "''loader_001''" default_config]
    registry_ids_resolve [of "''vent_system_002''" default_config]
    registry_ids_resolve [of "''env_temp_hum_003''" default_config]
    registry_ids_resolve [of "''personnel_014''" default_config]
  show ?thesis by blast
qed

lemma distinct_any:
  "distinct (vehicles config)" "distinct (fixed_assets config)" "distinct (env_sensors config)"
  "distinct (personnel config)"
proof -
  show "distinct (vehicles config)"
    using vehicles_props(2) [of config] negative_empty [of config]
    by (cases "0 \<le> num_vehicles config") auto
  show "distinct (fixed_assets config)"
    using fixed_assets_props(2) [of config] negative_empty [of config]
    by (cases "0 \<le> num_fixed_assets config") auto
  show "distinct (env_sensors config)"
    using env_sensors_props(2) [of config] negative_empty [of config]
    by (cases "0 \<le> num_env_sensors config") auto
  show "distinct (personnel config)"
    by (rule personnel_props)
qed

lemma distinct_all_devices: "distinct (all_devices config)"
proof -
  have "set (vehicles config) \<inter> set (fixed_assets config) = {}"
    "set (vehicles config) \<inter> set (env_sensors config) = {}"
    "set (vehicles config) \<inter> set (personnel config) = {}"
    "set (fixed_assets config) \<inter> set (env_sensors config) = {}"
    "set (fixed_assets config) \<inter> set (personnel config) = {}"
    "set (env_sensors config) \<inter> set (personnel config) = {}"
    using vehicles_resolve [of _ config] fixed_assets_resolve [of _ config]
      env_sensors_resolve [of _ config] personnel_resolve [of _ config]
    by fastforce+
  then show ?thesis
    unfolding all_devices_def distinct_append set_append
    using distinct_any [of config] by blast
qed


subsection \<open>Number and form of the generated identifiers\<close>

text \<open>
  Claim C2. The number of identifiers and their uniqueness hold (\<open>device_lists\<close> below),
  but the identifiers are not dealt out to the subtypes in turn. The comprehension gives
  every subtype \<open>n div k + 1\<close> indices, enough for an even split, and the slice then cuts
  the list at \<open>n\<close>, which takes everything from the last subtypes: the default
  configuration has five sensors of each of the first four environmental subtypes and no
  \<open>ground_stab\<close> sensor at all, and 4, 4 and 2 fixed assets; three vehicles are two haul
  trucks, one loader and no excavator. The counts differ by more than one.
\<close>

theorem subtype_balance_failing_input:
  "length (env_sensors default_config) = 20 \<and>
   subtype_count ''env_co_co2_'' (env_sensors default_config) = 5 \<and>
   subtype_count ''env_methane_'' (env_sensors default_config) = 5 \<and>
   subtype_count ''env_dust_'' (env_sensors default_config) = 5 \<and>
   subtype_count ''env_temp_hum_'' (env_sensors default_config) = 5 \<and>
   subtype_count ''env_ground_stab_'' (env_sensors default_config) = 0 \<and>
   length (fixed_assets default_config) = 10 \<and>
   subtype_count ''fan_'' (fixed_assets default_config) = 4 \<and>
   subtype_count ''vent_system_'' (fixed_assets default_config) = 4 \<and>
   subtype_count ''conveyor_'' (fixed_assets default_config) = 2 \<and>
   vehicles (default_config\<lparr>num_vehicles := 3\<rparr>) =
     [''haul_truck_000'', ''haul_truck_001'', ''loader_000''] \<and>
   subtype_count ''haul_truck_'' (vehicles (default_config\<lparr>num_vehicles := 3\<rparr>)) = 2 \<and>
   subtype_count ''loader_'' (vehicles (default_config\<lparr>num_vehicles := 3\<rparr>)) = 1 \<and>
   subtype_count ''excavator_'' (vehicles (default_config\<lparr>num_vehicles := 3\<rparr>)) = 0"
  by code_simp

text \<open>
  What the identifier lists do satisfy. For a non-negative count \<open>n\<close> a category has
  exactly \<open>n\<close> identifiers; all identifiers of all categories are different; every
  identifier is a subtype token of its category, an underscore and a zero-based index in
  the format \<open>03d\<close>; subtype number \<open>j\<close> of \<open>k\<close> gets \<open>block_split k n j\<close> of them.
\<close>

lemma device_lists:
  "(0 \<le> num_vehicles config \<longrightarrow>
      length (vehicles config) = nat (num_vehicles config) \<and>
      subtype_count ''haul_truck_'' (vehicles config) = block_split 3 (nat (num_vehicles config)) 0 \<and>
      subtype_count ''loader_'' (vehicles config) = block_split 3 (nat (num_vehicles config)) 1 \<and>
      subtype_count ''excavator_'' (vehicles config) = block_split 3 (nat (num_vehicles config)) 2) \<and>
   (0 \<le> num_fixed_assets config \<longrightarrow>
      length (fixed_assets config) = nat (num_fixed_assets config) \<and>
      subtype_count ''fan_'' (fixed_assets config) = block_split 3 (nat (num_fixed_assets config)) 0 \<and>
      subtype_count ''vent_system_'' (fixed_assets config)
        = block_split 3 (nat (num_fixed_assets config)) 1 \<and>
      subtype_count ''conveyor_'' (fixed_assets config)
        = block_split 3 (nat (num_fixed_assets config)) 2) \<and>
   (0 \<le> num_env_sensors config \<longrightarrow>
      length (env_sensors config) = nat (num_env_sensors config) \<and>
      subtype_count ''env_co_co2_'' (env_sensors config)
        = block_split 5 (nat (num_env_sensors config)) 0 \<and>
      subtype_count ''env_methane_'' (env_sensors config)
        = block_split 5 (nat (num_env_sensors config)) 1 \<and>
      subtype_count ''env_dust_'' (env_sensors config)
        = block_split 5 (nat (num_env_sensors config)) 2 \<and>
      subtype_count ''env_temp_hum_'' (env_sensors config)
        = block_split 5 (nat (num_env_sensors config)) 3 \<and>
      subtype_count ''env_ground_stab_'' (env_sensors config)
        = block_split 5 (nat (num_env_sensors config)) 4) \<and>
   (0 \<le> num_personnel config \<longrightarrow>
      length (personnel config) = nat (num_personnel config)) \<and>
   distinct (all_devices config) \<and>
   (d \<in> set (vehicles config) \<longrightarrow>
      (\<exists>typ\<in>set [''haul_truck'', ''loader'', ''excavator''].
         \<exists>i. int i \<le> num_vehicles config div 3 \<and> d = typ @ ''_'' @ fmt03 i)) \<and>
   (d \<in> set (fixed_assets config) \<longrightarrow>
      (\<exists>typ\<in>set [''fan'', ''vent_system'', ''conveyor''].
         \<exists>i. int i \<le> num_fixed_assets config div 3 \<and> d = typ @ ''_'' @ fmt03 i)) \<and>
   (d \<in> set (env_sensors config) \<longrightarrow>
      (\<exists>typ\<in>set [''co_co2'', ''methane'', ''dust'', ''temp_hum'', ''ground_stab''].
         \<exists>i. int i \<le> num_env_sensors config div 5 \<and> d = ''env_'' @ typ @ ''_'' @ fmt03 i)) \<and>
   (d \<in> set (personnel config) \<longrightarrow>
      (\<exists>i. int i < num_personnel config \<and> d = ''personnel_'' @ fmt03 i))"
proof -
  have v: "0 \<le> num_vehicles config \<longrightarrow>
      length (vehicles config) = nat (num_vehicles config) \<and>
      subtype_count ''haul_truck_'' (vehicles config) = block_split 3 (nat (num_vehicles config)) 0 \<and>
      subtype_count ''loader_'' (vehicles config) = block_split 3 (nat (num_vehicles config)) 1 \<and>
      subtype_count ''excavator_'' (vehicles config) = block_split 3 (nat (num_vehicles config)) 2"
    by (intro impI conjI vehicles_props)
  have f: "0 \<le> num_fixed_assets config \<longrightarrow>
      length (fixed_assets config) = nat (num_fixed_assets config) \<and>
      subtype_count ''fan_'' (fixed_assets config) = block_split 3 (nat (num_fixed_assets config)) 0 \<and>
      subtype_count ''vent_system_'' (fixed_assets config)
        = block_split 3 (nat (num_fixed_assets config)) 1 \<and>
      subtype_count ''conveyor_'' (fixed_assets config)
        = block_split 3 (nat (num_fixed_assets config)) 2"
    by (intro impI conjI fixed_assets_props)
  have e: "0 \<le> num_env_sensors config \<longrightarrow>
      length (env_sensors config) = nat (num_env_sensors config) \<and>
      subtype_count ''env_co_co2_'' (env_sensors config)
        = block_split 5 (nat (num_env_sensors config)) 0 \<and>
      subtype_count ''env_methane_'' (env_sensors config)
        = block_split 5 (nat (num_env_sensors config)) 1 \<and>
      subtype_count ''env_dust_'' (env_sensors config)
        = block_split 5 (nat (num_env_sensors config)) 2 \<and>
      subtype_count ''env_temp_hum_'' (env_sensors config)
        = block_split 5 (nat (num_env_sensors config)) 3 \<and>
      subtype_count ''env_ground_stab_'' (env_sensors config)
        = block_split 5 (nat (num_env_sensors config)) 4"
    by (intro impI conjI env_sensors_props)
  have p: "0 \<le> num_personnel config \<longrightarrow>
      length (personnel config) = nat (num_personnel config)"
    by (simp add: personnel_props)
  note forms = vehicles_form [of d config] fixed_assets_form [of d config]
    env_sensors_form [of d config] personnel_form [of d config]
  show ?thesis
    by (intro conjI v f e p distinct_all_devices impI forms)
qed

subsection \<open>Drawing the metrics\<close>

lemma shift_0: "shift 0 g = g"
  by (simp add: shift_def)

lemma shift_shift: "shift a (shift b g) = shift (a + b) g"
  by (simp add: shift_def add.assoc)

lemma shift_apply: "shift m g n = g (n + m)"
  by (simp add: shift_def)

lemma unit_draws_shift: "unit_draws g \<Longrightarrow> unit_draws (shift m g)"
  by (simp add: unit_draws_def shift_def)

lemma py_random_shift: "py_random g = (g 0, shift 1 g)"
  by (simp add: py_random_def shift_def)

lemma uniform_shift: "uniform a b g = (a + (b - a) * g 0, shift 1 g)"
  by (simp add: uniform_def py_random_shift)

lemma jittered_shift: "jittered var lo hi g = (jitter_of var lo hi (g 0) (g (Suc 0)), shift 2 g)"
  by (simp add: jittered_def uniform_def py_random_def jitter_of_def shift_def)

lemma choice_shift:
  assumes "seq \<noteq> []" and "unit_draws g"
  shows "\<exists>x\<in>set seq. choice seq g = Inr (x, shift 1 g)"
proof -
  let ?i = "nat \<lfloor>g 0 * real (length seq)\<rfloor>"
  have "0 \<le> g 0" and "g 0 < 1"
    using assms(2) by (simp_all add: unit_draws_def)
  then have "g 0 * real (length seq) < real (length seq)"
    using assms(1) by simp
  then have "\<lfloor>g 0 * real (length seq)\<rfloor> < int (length seq)"
    by (simp add: floor_less_iff)
  moreover have "0 \<le> \<lfloor>g 0 * real (length seq)\<rfloor>"
    using \<open>0 \<le> g 0\<close> by simp
  ultimately have "?i < length seq"
    by (simp add: nat_less_iff)
  then have "seq ! ?i \<in> set seq"
    by (rule nth_mem)
  then show ?thesis
    using assms(1) by (simp add: choice_def py_random_shift)
qed

lemma nested_conforms:
  assumes "distinct (map fst fs)"
  shows "(\<exists>m. snd (nested var fs acc g) = shift m g) \<and>
    (\<forall>(k, lo, hi)\<in>set fs. \<exists>n. map_of (fst (nested var fs acc g)) k
        = Some (jitter_of var lo hi (g n) (g (Suc n)))) \<and>
    (\<forall>k. k \<notin> fst ` set fs \<longrightarrow> map_of (fst (nested var fs acc g)) k = map_of acc k)"
  using assms
proof (induction fs arbitrary: acc g)
  case Nil
  show ?case using shift_0 [of g] by (auto intro: exI [of _ 0])
next
  case (Cons f fs)
  obtain k lo hi where f: "f = (k, lo, hi)" by (cases f)
  let ?x = "jitter_of var lo hi (g 0) (g (Suc 0))"
  let ?acc = "AList.update k ?x acc"
  let ?g = "shift 2 g"
  have step: "nested var (f # fs) acc g = nested var fs ?acc ?g"
    by (simp add: f jittered_shift)
  from Cons.prems have d: "distinct (map fst fs)" and k: "k \<notin> fst ` set fs"
    by (simp_all add: f)
  note ih = Cons.IH [OF d, of ?acc ?g]
  from ih obtain m where "snd (nested var fs ?acc ?g) = shift m ?g" by blast
  then have 1: "\<exists>m. snd (nested var (f # fs) acc g) = shift m g"
    unfolding step shift_shift by blast
  from ih k have "map_of (fst (nested var fs ?acc ?g)) k = map_of ?acc k"
    by blast
  then have hd: "\<exists>n. map_of (fst (nested var (f # fs) acc g)) k
      = Some (jitter_of var lo hi (g n) (g (Suc n)))"
    unfolding step by (auto simp: update_conv' intro: exI [of _ 0])
  have tl: "\<exists>n. map_of (fst (nested var (f # fs) acc g)) k'
      = Some (jitter_of var lo' hi' (g n) (g (Suc n)))" if "(k', lo', hi') \<in> set fs" for k' lo' hi'
  proof -
    from ih that obtain n where "map_of (fst (nested var fs ?acc ?g)) k'
        = Some (jitter_of var lo' hi' (?g n) (?g (Suc n)))"
      by blast
    then show ?thesis
      unfolding step shift_apply by (auto intro: exI [of _ "n + 2"])
  qed
  have 3: "\<forall>k'. k' \<notin> fst ` set (f # fs) \<longrightarrow>
      map_of (fst (nested var (f # fs) acc g)) k' = map_of acc k'"
    unfolding step using ih by (auto simp: f update_conv')
  from 1 hd tl 3 show ?case
    by (auto simp: f)
qed


lemma conforms_shift:
  assumes "conforms var (shift m g) r v"
  shows "conforms var g r v"
proof (cases r)
  case (Range lo hi)
  with assms obtain y where v: "v = Num y" by (cases v) auto
  from assms obtain n where "y = jitter_of var lo hi (g (n + m)) (g (Suc (n + m)))"
    by (auto simp: Range v shift_apply)
  then show ?thesis
    unfolding Range v conforms.simps by (rule exI)
next
  case (Nested fs)
  with assms obtain ys where v: "v = Group ys" by (cases v) auto
  have "\<exists>n. map_of ys k = Some (jitter_of var lo hi (g n) (g (Suc n)))"
    if "(k, lo, hi) \<in> set fs" for k lo hi
  proof -
    from assms that obtain n
      where "map_of ys k = Some (jitter_of var lo hi (g (n + m)) (g (Suc (n + m))))"
      by (fastforce simp: Nested v shift_apply)
    then show ?thesis by (rule exI)
  qed
  then show ?thesis
    by (auto simp: Nested v)
next
  case (Labels opts)
  with assms show ?thesis by (cases v) auto
next
  case (Flags opts)
  with assms show ?thesis by (cases v) auto
qed

lemma draw_metric_conforms:
  assumes "wf_rule r" and "unit_draws g"
  shows "\<exists>v m. draw_metric var r g = Inr (v, shift m g) \<and> conforms var g r v"
proof (cases r)
  case (Range lo hi)
  have "conforms var g (Range lo hi) (Num (jitter_of var lo hi (g 0) (g (Suc 0))))"
    unfolding conforms.simps by (rule exI [of _ 0]) simp
  then show ?thesis
    by (auto simp: Range jittered_shift)
next
  case (Nested fs)
  from assms(1) have "distinct (map fst fs)" by (simp add: Nested)
  from nested_conforms [OF this, of var "[]" g]
  obtain m where "snd (nested var fs [] g) = shift m g"
    and "\<forall>(k, lo, hi)\<in>set fs. \<exists>n. map_of (fst (nested var fs [] g)) k
        = Some (jitter_of var lo hi (g n) (g (Suc n)))"
    by blast
  then show ?thesis
    by (auto simp: Nested split: prod.splits)
next
  case (Labels opts)
  from assms have "\<exists>x\<in>set opts. choice opts g = Inr (x, shift 1 g)"
    by (intro choice_shift) (simp_all add: Labels)
  then show ?thesis
    by (auto simp: Labels)
next
  case (Flags opts)
  from assms have "\<exists>x\<in>set opts. choice opts g = Inr (x, shift 1 g)"
    by (intro choice_shift) (simp_all add: Flags)
  then show ?thesis
    by (auto simp: Flags)
qed

lemma draw_metrics_conforms:
  assumes "wf_table items" and "unit_draws g"
  shows "\<exists>ms m. draw_metrics var items acc g = Inr (ms, shift m g) \<and>
    (\<forall>(k, r)\<in>set items. \<exists>v. map_of ms k = Some v \<and> conforms var g r v) \<and>
    (\<forall>k. k \<notin> fst ` set items \<longrightarrow> map_of ms k = map_of acc k)"
  using assms
proof (induction items arbitrary: acc g)
  case Nil
  show ?case using shift_0 [of g] by (auto intro: exI [of _ 0])
next
  case (Cons item items)
  obtain k r where item: "item = (k, r)" by (cases item)
  from Cons.prems(1) have wf: "wf_rule r" and wt: "wf_table items" and k: "k \<notin> fst ` set items"
    by (simp_all add: item wf_table_def)
  from draw_metric_conforms [OF wf Cons.prems(2), of var]
  obtain v m1 where dm: "draw_metric var r g = Inr (v, shift m1 g)" and cv: "conforms var g r v"
    by blast
  let ?acc = "AList.update k v acc"
  let ?g = "shift m1 g"
  have step: "draw_metrics var (item # items) acc g = draw_metrics var items ?acc ?g"
    by (simp add: item dm)
  from Cons.IH [OF wt unit_draws_shift [OF Cons.prems(2)], of ?acc m1]
  obtain ms m where res: "draw_metrics var items ?acc ?g = Inr (ms, shift m ?g)"
    and each: "\<forall>(k', r')\<in>set items. \<exists>v'. map_of ms k' = Some v' \<and> conforms var ?g r' v'"
    and rest: "\<forall>k'. k' \<notin> fst ` set items \<longrightarrow> map_of ms k' = map_of ?acc k'"
    by blast
  have 1: "draw_metrics var (item # items) acc g = Inr (ms, shift (m + m1) g)"
    unfolding step res shift_shift ..
  from rest k have "map_of ms k = Some v"
    by (simp add: update_conv')
  with cv have 2: "\<exists>v'. map_of ms k = Some v' \<and> conforms var g r v'"
    by blast
  have 3: "\<exists>v'. map_of ms k' = Some v' \<and> conforms var g r' v'" if "(k', r') \<in> set items" for k' r'
    using each that conforms_shift [of var m1 g r'] by blast
  have 4: "\<forall>k'. k' \<notin> fst ` set (item # items) \<longrightarrow> map_of ms k' = map_of acc k'"
    using rest by (auto simp: item update_conv')
  from 1 2 3 4 show ?case
    by (auto simp: item)
qed



lemma wf_tables:
  "map_of metric_ranges typ = Some ranges \<Longrightarrow> wf_table ranges"
  by (auto simp: metric_ranges_def wf_table_def split: if_splits)


subsection \<open>Fault injection\<close>

lemma all_devices_types:
  assumes "d \<in> set (all_devices config)"
  shows "\<exists>typ\<in>set [''vehicle'', ''fixed'', ''env'', ''personnel'']. get_device_type d = Some typ"
  using assms vehicles_resolve [of d config] fixed_assets_resolve [of d config]
    env_sensors_resolve [of d config] personnel_resolve [of d config]
  unfolding all_devices_def by auto

lemma table_of_type:
  assumes "typ \<in> set [''vehicle'', ''fixed'', ''env'', ''personnel'']"
  shows "\<exists>ranges. map_of metric_ranges typ = Some ranges"
  using assms by (auto simp: metric_ranges_def)

lemma generate_metrics_conforms:
  assumes "get_device_type d = Some typ" and "map_of metric_ranges typ = Some ranges"
    and "unit_draws g"
  shows "\<exists>ms m. generate_metrics config d g = Inr (typ, ms, shift m g) \<and>
    (\<forall>(k, r)\<in>set ranges. \<exists>v. map_of ms k = Some v \<and> conforms (variance config) g r v)"
proof -
  from draw_metrics_conforms [OF wf_tables [OF assms(2)] assms(3), of "variance config" "[]"]
  obtain ms m where "draw_metrics (variance config) ranges [] g = Inr (ms, shift m g)"
    and "\<forall>(k, r)\<in>set ranges. \<exists>v. map_of ms k = Some v \<and> conforms (variance config) g r v"
    by blast
  then show ?thesis
    by (auto simp: generate_metrics_def assms(1,2))
qed

lemma inject_fault_normal:
  "md \<noteq> ''fault'' \<Longrightarrow> inject_fault typ md ms g = Inr (ms, ''normal'', g)"
  "\<not> g 0 < 0.2 \<Longrightarrow> inject_fault typ ''fault'' ms g = Inr (ms, ''normal'', shift 1 g)"
  by (simp_all add: inject_fault_def py_random_shift)

lemma simulate_data_normal:
  assumes "generate_metrics config d g = Inr (typ, ms, shift m g)"
    and "md \<noteq> ''fault'' \<or> \<not> g m < 0.2"
  shows "simulate_data config now d md g =
    Inr (\<lparr>device_id = d, type = typ, timestamp = now @ ''Z'', metrics = ms, status = ''normal''\<rparr>,
         if md = ''fault'' then shift (Suc m) g else shift m g)"
proof (cases "md = ''fault''")
  case True
  with assms(2) have "\<not> shift m g 0 < 0.2" by (simp add: shift_apply)
  then show ?thesis
    by (simp add: simulate_data_def assms(1) True inject_fault_normal(2) shift_shift)
next
  case False
  then show ?thesis
    by (simp add: simulate_data_def assms(1) inject_fault_normal(1))
qed


lemma conforms_Range_Num:
  assumes "(k, Range lo hi) \<in> set ranges"
    and "\<forall>(k, r)\<in>set ranges. \<exists>v. map_of ms k = Some v \<and> conforms var g r v"
  shows "\<exists>x. map_of ms k = Some (Num x)"
proof -
  from assms obtain v where v: "map_of ms k = Some v" and c: "conforms var g (Range lo hi) v"
    by blast
  from c obtain x where "v = Num x" by (cases v) auto
  with v show ?thesis by blast
qed

lemma inject_fault_vehicle:
  assumes "g 0 < 0.2" and "map_of ms ''engine_temp'' = Some (Num x)"
  shows "inject_fault ''vehicle'' ''fault'' ms g
    = Inr (AList.update ''engine_temp'' (Num (x + 50)) ms, ''fault_overheat'', shift 1 g)"
  using assms by (simp add: inject_fault_def py_random_shift add_to_def)

lemma inject_fault_fixed:
  assumes "g 0 < 0.2"
  shows "inject_fault ''fixed'' ''fault'' ms g
    = Inr (AList.update ''operational_status'' (Str ''jammed'') ms, ''fault_jam'', shift 1 g)"
  using assms by (simp add: inject_fault_def py_random_shift)

lemma inject_fault_env:
  assumes "g 0 < 0.2" and "map_of ms ''methane'' = Some (Num x)"
  shows "inject_fault ''env'' ''fault'' ms g
    = Inr (AList.update ''methane'' (Num (x + 10)) ms, ''fault_gas'', shift 1 g)"
  using assms by (simp add: inject_fault_def py_random_shift add_to_def)

lemma inject_fault_personnel:
  assumes "g 0 < 0.2"
  shows "inject_fault ''personnel'' ''fault'' ms g
    = Inr (AList.update ''fall_detection'' (Boolean True) ms, ''fault_fall'', shift 1 g)"
  using assms by (simp add: inject_fault_def py_random_shift)

text \<open>
  Claim C1. For a device of the registry and a generator whose numbers lie in \<open>[0, 1)\<close>,
  let \<open>ms\<close> be the metrics drawn by the loop of lines 136 to 144, which takes \<open>m\<close>
  numbers. In every mode other than \<open>fault\<close> the record carries \<open>ms\<close> unchanged and the
  status \<open>normal\<close>, and no further number is drawn. In fault mode exactly one more number
  \<open>g m\<close> is drawn for the record: if it is not below 0.2 the record is again \<open>ms\<close> with
  status \<open>normal\<close>; if it is below 0.2 exactly one entry of \<open>ms\<close> is changed, by the
  device's type: \<open>engine_temp\<close> plus 50 and \<open>fault_overheat\<close> for a vehicle,
  \<open>operational_status\<close> set to \<open>jammed\<close> and \<open>fault_jam\<close> for a fixed asset,
  \<open>methane\<close> plus 10 and \<open>fault_gas\<close> for an environmental sensor, \<open>fall_detection\<close>
  set to true and \<open>fault_fall\<close> for personnel. That the number is below 0.2 with
  probability 0.2 is a property of the library's generator and is not part of the model.
\<close>

theorem fault_injection:
  assumes "d \<in> set (all_devices config)" and "unit_draws g"
  shows "\<exists>typ ms m.
    typ \<in> set [''vehicle'', ''fixed'', ''env'', ''personnel''] \<and>
    get_device_type d = Some typ \<and>
    generate_metrics config d g = Inr (typ, ms, shift m g) \<and>
    (md \<noteq> ''fault'' \<longrightarrow>
       simulate_data config now d md g =
         Inr (\<lparr>device_id = d, type = typ, timestamp = now @ ''Z'', metrics = ms,
               status = ''normal''\<rparr>, shift m g)) \<and>
    (\<not> g m < 0.2 \<longrightarrow>
       simulate_data config now d ''fault'' g =
         Inr (\<lparr>device_id = d, type = typ, timestamp = now @ ''Z'', metrics = ms,
               status = ''normal''\<rparr>, shift (Suc m) g)) \<and>
    (g m < 0.2 \<and> typ = ''vehicle'' \<longrightarrow>
       (\<exists>x. map_of ms ''engine_temp'' = Some (Num x) \<and>
          simulate_data config now d ''fault'' g =
            Inr (\<lparr>device_id = d, type = typ, timestamp = now @ ''Z'',
                  metrics = AList.update ''engine_temp'' (Num (x + 50)) ms,
                  status = ''fault_overheat''\<rparr>, shift (Suc m) g))) \<and>
    (g m < 0.2 \<and> typ = ''fixed'' \<longrightarrow>
       simulate_data config now d ''fault'' g =
         Inr (\<lparr>device_id = d, type = typ, timestamp = now @ ''Z'',
               metrics = AList.update ''operational_status'' (Str ''jammed'') ms,
               status = ''fault_jam''\<rparr>, shift (Suc m) g)) \<and>
    (g m < 0.2 \<and> typ = ''env'' \<longrightarrow>
       (\<exists>x. map_of ms ''methane'' = Some (Num x) \<and>
          simulate_data config now d ''fault'' g =
            Inr (\<lparr>device_id = d, type = typ, timestamp = now @ ''Z'',
                  metrics = AList.update ''methane'' (Num (x + 10)) ms,
                  status = ''fault_gas''\<rparr>, shift (Suc m) g))) \<and>
    (g m < 0.2 \<and> typ = ''personnel'' \<longrightarrow>
       simulate_data config now d ''fault'' g =
         Inr (\<lparr>device_id = d, type = typ, timestamp = now @ ''Z'',
               metrics = AList.update ''fall_detection'' (Boolean True) ms,
               status = ''fault_fall''\<rparr>, shift (Suc m) g))"
proof -
  from all_devices_types [OF assms(1)] obtain ty
    where ty: "ty \<in> set [''vehicle'', ''fixed'', ''env'', ''personnel'']"
      and gdt: "get_device_type d = Some ty"
    by blast
  from table_of_type [OF ty] obtain ranges where tab: "map_of metric_ranges ty = Some ranges"
    by blast
  from generate_metrics_conforms [OF gdt tab assms(2), of config] obtain ms m
    where gen: "generate_metrics config d g = Inr (ty, ms, shift m g)"
      and conf: "\<forall>(k, r)\<in>set ranges. \<exists>v. map_of ms k = Some v \<and> conforms (variance config) g r v"
    by blast
  have s0: "shift m g 0 = g m"
    by (simp add: shift_apply)
  have normal: "md \<noteq> ''fault'' \<longrightarrow>
       simulate_data config now d md g =
         Inr (\<lparr>device_id = d, type = ty, timestamp = now @ ''Z'', metrics = ms,
               status = ''normal''\<rparr>, shift m g)"
    using simulate_data_normal [OF gen, of md now] by simp
  have nodraw: "\<not> g m < 0.2 \<longrightarrow>
       simulate_data config now d ''fault'' g =
         Inr (\<lparr>device_id = d, type = ty, timestamp = now @ ''Z'', metrics = ms,
               status = ''normal''\<rparr>, shift (Suc m) g)"
    using simulate_data_normal [OF gen, of "''fault''" now] by simp
  have vehicle: "g m < 0.2 \<and> ty = ''vehicle'' \<longrightarrow>
       (\<exists>x. map_of ms ''engine_temp'' = Some (Num x) \<and>
          simulate_data config now d ''fault'' g =
            Inr (\<lparr>device_id = d, type = ty, timestamp = now @ ''Z'',
                  metrics = AList.update ''engine_temp'' (Num (x + 50)) ms,
                  status = ''fault_overheat''\<rparr>, shift (Suc m) g))"
  proof (intro impI, elim conjE)
    assume lt: "g m < 0.2" and v: "ty = ''vehicle''"
    from tab have "(''engine_temp'', Range 60 90) \<in> set ranges"
      by (auto simp: v metric_ranges_def)
    from conforms_Range_Num [OF this conf] obtain x
      where x: "map_of ms ''engine_temp'' = Some (Num x)" by blast
    from lt have "shift m g 0 < 0.2" by (simp add: s0)
    from inject_fault_vehicle [of "shift m g" ms x, OF this x] x show "\<exists>x. map_of ms ''engine_temp'' = Some (Num x) \<and>
          simulate_data config now d ''fault'' g =
            Inr (\<lparr>device_id = d, type = ty, timestamp = now @ ''Z'',
                  metrics = AList.update ''engine_temp'' (Num (x + 50)) ms,
                  status = ''fault_overheat''\<rparr>, shift (Suc m) g)"
      by (simp add: simulate_data_def gen v shift_shift)
  qed
  have fixed: "g m < 0.2 \<and> ty = ''fixed'' \<longrightarrow>
       (simulate_data config now d ''fault'' g =
         Inr (\<lparr>device_id = d, type = ty, timestamp = now @ ''Z'',
               metrics = AList.update ''operational_status'' (Str ''jammed'') ms,
               status = ''fault_jam''\<rparr>, shift (Suc m) g))"
  proof (intro impI, elim conjE)
    assume lt: "g m < 0.2" and v: "ty = ''fixed''"
    from lt have "shift m g 0 < 0.2" by (simp add: s0)
    from inject_fault_fixed [of "shift m g" ms, OF this] show "simulate_data config now d ''fault'' g =
         Inr (\<lparr>device_id = d, type = ty, timestamp = now @ ''Z'',
               metrics = AList.update ''operational_status'' (Str ''jammed'') ms,
               status = ''fault_jam''\<rparr>, shift (Suc m) g)"
      by (simp add: simulate_data_def gen v shift_shift)
  qed
  have env: "g m < 0.2 \<and> ty = ''env'' \<longrightarrow>
       (\<exists>x. map_of ms ''methane'' = Some (Num x) \<and>
          simulate_data config now d ''fault'' g =
            Inr (\<lparr>device_id = d, type = ty, timestamp = now @ ''Z'',
                  metrics = AList.update ''methane'' (Num (x + 10)) ms,
                  status = ''fault_gas''\<rparr>, shift (Suc m) g))"
  proof (intro impI, elim conjE)
    assume lt: "g m < 0.2" and v: "ty = ''env''"
    from tab have "(''methane'', Range 0 5) \<in> set ranges"
      by (auto simp: v metric_ranges_def)
    from conforms_Range_Num [OF this conf] obtain x
      where x: "map_of ms ''methane'' = Some (Num x)" by blast
    from lt have "shift m g 0 < 0.2" by (simp add: s0)
    from inject_fault_env [of "shift m g" ms x, OF this x] x show "\<exists>x. map_of ms ''methane'' = Some (Num x) \<and>
          simulate_data config now d ''fault'' g =
            Inr (\<lparr>device_id = d, type = ty, timestamp = now @ ''Z'',
                  metrics = AList.update ''methane'' (Num (x + 10)) ms,
                  status = ''fault_gas''\<rparr>, shift (Suc m) g)"
      by (simp add: simulate_data_def gen v shift_shift)
  qed
  have personnel: "g m < 0.2 \<and> ty = ''personnel'' \<longrightarrow>
       (simulate_data config now d ''fault'' g =
         Inr (\<lparr>device_id = d, type = ty, timestamp = now @ ''Z'',
               metrics = AList.update ''fall_detection'' (Boolean True) ms,
               status = ''fault_fall''\<rparr>, shift (Suc m) g))"
  proof (intro impI, elim conjE)
    assume lt: "g m < 0.2" and v: "ty = ''personnel''"
    from lt have "shift m g 0 < 0.2" by (simp add: s0)
    from inject_fault_personnel [of "shift m g" ms, OF this] show "simulate_data config now d ''fault'' g =
         Inr (\<lparr>device_id = d, type = ty, timestamp = now @ ''Z'',
               metrics = AList.update ''fall_detection'' (Boolean True) ms,
               status = ''fault_fall''\<rparr>, shift (Suc m) g)"
      by (simp add: simulate_data_def gen v shift_shift)
  qed
  show ?thesis
    by (intro exI conjI) (rule ty gdt gen normal nodraw vehicle fixed env personnel)+
qed


lemma unit_draws_const: "0 \<le> u \<Longrightarrow> u < 1 \<Longrightarrow> unit_draws (const_draws u)"
  by (simp add: unit_draws_def const_draws_def)

lemma sample_devices:
  "''haul_truck_000'' \<in> set (all_devices default_config)"
  "''fan_000'' \<in> set (all_devices default_config)"
  "''env_methane_000'' \<in> set (all_devices default_config)"
  "''personnel_000'' \<in> set (all_devices default_config)"
  by code_simp+

lemma sample_types:
  "get_device_type ''haul_truck_000'' = Some ''vehicle''"
  "get_device_type ''fan_000'' = Some ''fixed''"
  "get_device_type ''env_methane_000'' = Some ''env''"
  "get_device_type ''personnel_000'' = Some ''personnel''"
  by (simp_all add: get_device_type_def)

text \<open>
  One device of each type with the fault drawn (all numbers 0), a vehicle with the fault
  not drawn (all numbers 1/2) and a vehicle in intermittent mode.
\<close>

theorem fault_injection_witness:
  "''haul_truck_000'' \<in> set (all_devices default_config) \<and>
   ''fan_000'' \<in> set (all_devices default_config) \<and>
   ''env_methane_000'' \<in> set (all_devices default_config) \<and>
   ''personnel_000'' \<in> set (all_devices default_config) \<and>
   unit_draws (const_draws 0) \<and> unit_draws (const_draws (1 / 2)) \<and>
   (\<exists>ms g'. simulate_data default_config ''2026-01-01T00:00:00'' ''haul_truck_000''
        ''intermittent'' (const_draws 0) =
      Inr (\<lparr>device_id = ''haul_truck_000'', type = ''vehicle'',
            timestamp = ''2026-01-01T00:00:00Z'', metrics = ms, status = ''normal''\<rparr>, g')) \<and>
   (\<exists>ms g'. simulate_data default_config ''2026-01-01T00:00:00'' ''haul_truck_000''
        ''fault'' (const_draws (1 / 2)) =
      Inr (\<lparr>device_id = ''haul_truck_000'', type = ''vehicle'',
            timestamp = ''2026-01-01T00:00:00Z'', metrics = ms, status = ''normal''\<rparr>, g')) \<and>
   (\<exists>ms x g'. map_of ms ''engine_temp'' = Some (Num x) \<and>
      simulate_data default_config ''2026-01-01T00:00:00'' ''haul_truck_000''
        ''fault'' (const_draws 0) =
      Inr (\<lparr>device_id = ''haul_truck_000'', type = ''vehicle'',
            timestamp = ''2026-01-01T00:00:00Z'',
            metrics = AList.update ''engine_temp'' (Num (x + 50)) ms,
            status = ''fault_overheat''\<rparr>, g')) \<and>
   (\<exists>ms g'. simulate_data default_config ''2026-01-01T00:00:00'' ''fan_000''
        ''fault'' (const_draws 0) =
      Inr (\<lparr>device_id = ''fan_000'', type = ''fixed'',
            timestamp = ''2026-01-01T00:00:00Z'',
            metrics = AList.update ''operational_status'' (Str ''jammed'') ms,
            status = ''fault_jam''\<rparr>, g')) \<and>
   (\<exists>ms x g'. map_of ms ''methane'' = Some (Num x) \<and>
      simulate_data default_config ''2026-01-01T00:00:00'' ''env_methane_000''
        ''fault'' (const_draws 0) =
      Inr (\<lparr>device_id = ''env_methane_000'', type = ''env'',
            timestamp = ''2026-01-01T00:00:00Z'',
            metrics = AList.update ''methane'' (Num (x + 10)) ms,
            status = ''fault_gas''\<rparr>, g')) \<and>
   (\<exists>ms g'. simulate_data default_config ''2026-01-01T00:00:00'' ''personnel_000''
        ''fault'' (const_draws 0) =
      Inr (\<lparr>device_id = ''personnel_000'', type = ''personnel'',
            timestamp = ''2026-01-01T00:00:00Z'',
            metrics = AList.update ''fall_detection'' (Boolean True) ms,
            status = ''fault_fall''\<rparr>, g'))"
proof -
  let ?now = "''2026-01-01T00:00:00''"
  have u0: "unit_draws (const_draws 0)" and u1: "unit_draws (const_draws (1 / 2))"
    by (simp_all add: unit_draws_const)
  have lt: "const_draws 0 m < 0.2" and ge: "\<not> const_draws (1 / 2) m < 0.2" for m
    by (simp_all add: const_draws_def)
  have z: "?now @ ''Z'' = ''2026-01-01T00:00:00Z''"
    by simp
  have 1: "\<exists>ms g'. simulate_data default_config ?now ''haul_truck_000'' ''intermittent'' (const_draws 0) =
      Inr (\<lparr>device_id = ''haul_truck_000'', type = ''vehicle'',
            timestamp = ?now @ ''Z'', metrics = ms,
            status = ''normal''\<rparr>, g')"
  proof -
    from fault_injection [OF sample_devices(1) u0, of "''intermittent''" ?now]
    obtain ty ms m where a: "get_device_type ''haul_truck_000'' = Some ty"
      and b: "''intermittent'' \<noteq> ''fault'' \<longrightarrow>
      simulate_data default_config ?now ''haul_truck_000'' ''intermittent'' (const_draws 0) =
      Inr (\<lparr>device_id = ''haul_truck_000'', type = ty,
            timestamp = ?now @ ''Z'', metrics = ms,
            status = ''normal''\<rparr>, shift m (const_draws 0))"
      by (elim exE conjE) (rule that; assumption)
    from a have ty: "ty = ''vehicle''"
      by (simp add: sample_types)
    have "''intermittent'' \<noteq> ''fault''" by simp
    with b ty show ?thesis
      by blast
  qed
  have 2: "\<exists>ms g'. simulate_data default_config ?now ''haul_truck_000'' ''fault'' (const_draws (1 / 2)) =
      Inr (\<lparr>device_id = ''haul_truck_000'', type = ''vehicle'',
            timestamp = ?now @ ''Z'', metrics = ms,
            status = ''normal''\<rparr>, g')"
  proof -
    from fault_injection [OF sample_devices(1) u1, of "''fault''" ?now]
    obtain ty ms m where a: "get_device_type ''haul_truck_000'' = Some ty"
      and b: "\<not> (const_draws (1 / 2)) m < 0.2 \<longrightarrow>
      simulate_data default_config ?now ''haul_truck_000'' ''fault'' (const_draws (1 / 2)) =
      Inr (\<lparr>device_id = ''haul_truck_000'', type = ty,
            timestamp = ?now @ ''Z'', metrics = ms,
            status = ''normal''\<rparr>, shift (Suc m) (const_draws (1 / 2)))"
      by (elim exE conjE) (rule that; assumption)
    from a have ty: "ty = ''vehicle''"
      by (simp add: sample_types)
    from b ty ge show ?thesis
      by blast
  qed
  have 3: "\<exists>ms x g'. map_of ms ''engine_temp'' = Some (Num x) \<and>
      simulate_data default_config ?now ''haul_truck_000'' ''fault'' (const_draws 0) =
      Inr (\<lparr>device_id = ''haul_truck_000'', type = ''vehicle'',
            timestamp = ?now @ ''Z'', metrics = AList.update ''engine_temp'' (Num (x + 50)) ms,
            status = ''fault_overheat''\<rparr>, g')"
  proof -
    from fault_injection [OF sample_devices(1) u0, of "''fault''" ?now]
    obtain ty ms m where a: "get_device_type ''haul_truck_000'' = Some ty"
      and b: "(const_draws 0) m < 0.2 \<and> ty = ''vehicle'' \<longrightarrow>
      (\<exists>x. map_of ms ''engine_temp'' = Some (Num x) \<and>
      simulate_data default_config ?now ''haul_truck_000'' ''fault'' (const_draws 0) =
      Inr (\<lparr>device_id = ''haul_truck_000'', type = ty,
            timestamp = ?now @ ''Z'', metrics = AList.update ''engine_temp'' (Num (x + 50)) ms,
            status = ''fault_overheat''\<rparr>, shift (Suc m) (const_draws 0)))"
      by (elim exE conjE) (rule that; assumption)
    from a have ty: "ty = ''vehicle''"
      by (simp add: sample_types)
    from b ty lt show ?thesis
      by blast
  qed
  have 4: "\<exists>ms g'. simulate_data default_config ?now ''fan_000'' ''fault'' (const_draws 0) =
      Inr (\<lparr>device_id = ''fan_000'', type = ''fixed'',
            timestamp = ?now @ ''Z'', metrics = AList.update ''operational_status'' (Str ''jammed'') ms,
            status = ''fault_jam''\<rparr>, g')"
  proof -
    from fault_injection [OF sample_devices(2) u0, of "''fault''" ?now]
    obtain ty ms m where a: "get_device_type ''fan_000'' = Some ty"
      and b: "(const_draws 0) m < 0.2 \<and> ty = ''fixed'' \<longrightarrow>
      simulate_data default_config ?now ''fan_000'' ''fault'' (const_draws 0) =
      Inr (\<lparr>device_id = ''fan_000'', type = ty,
            timestamp = ?now @ ''Z'', metrics = AList.update ''operational_status'' (Str ''jammed'') ms,
            status = ''fault_jam''\<rparr>, shift (Suc m) (const_draws 0))"
      by (elim exE conjE) (rule that; assumption)
    from a have ty: "ty = ''fixed''"
      by (simp add: sample_types)
    from b ty lt show ?thesis
      by blast
  qed
  have 5: "\<exists>ms x g'. map_of ms ''methane'' = Some (Num x) \<and>
      simulate_data default_config ?now ''env_methane_000'' ''fault'' (const_draws 0) =
      Inr (\<lparr>device_id = ''env_methane_000'', type = ''env'',
            timestamp = ?now @ ''Z'', metrics = AList.update ''methane'' (Num (x + 10)) ms,
            status = ''fault_gas''\<rparr>, g')"
  proof -
    from fault_injection [OF sample_devices(3) u0, of "''fault''" ?now]
    obtain ty ms m where a: "get_device_type ''env_methane_000'' = Some ty"
      and b: "(const_draws 0) m < 0.2 \<and> ty = ''env'' \<longrightarrow>
      (\<exists>x. map_of ms ''methane'' = Some (Num x) \<and>
      simulate_data default_config ?now ''env_methane_000'' ''fault'' (const_draws 0) =
      Inr (\<lparr>device_id = ''env_methane_000'', type = ty,
            timestamp = ?now @ ''Z'', metrics = AList.update ''methane'' (Num (x + 10)) ms,
            status = ''fault_gas''\<rparr>, shift (Suc m) (const_draws 0)))"
      by (elim exE conjE) (rule that; assumption)
    from a have ty: "ty = ''env''"
      by (simp add: sample_types)
    from b ty lt show ?thesis
      by blast
  qed
  have 6: "\<exists>ms g'. simulate_data default_config ?now ''personnel_000'' ''fault'' (const_draws 0) =
      Inr (\<lparr>device_id = ''personnel_000'', type = ''personnel'',
            timestamp = ?now @ ''Z'', metrics = AList.update ''fall_detection'' (Boolean True) ms,
            status = ''fault_fall''\<rparr>, g')"
  proof -
    from fault_injection [OF sample_devices(4) u0, of "''fault''" ?now]
    obtain ty ms m where a: "get_device_type ''personnel_000'' = Some ty"
      and b: "(const_draws 0) m < 0.2 \<and> ty = ''personnel'' \<longrightarrow>
      simulate_data default_config ?now ''personnel_000'' ''fault'' (const_draws 0) =
      Inr (\<lparr>device_id = ''personnel_000'', type = ty,
            timestamp = ?now @ ''Z'', metrics = AList.update ''fall_detection'' (Boolean True) ms,
            status = ''fault_fall''\<rparr>, shift (Suc m) (const_draws 0))"
      by (elim exE conjE) (rule that; assumption)
    from a have ty: "ty = ''personnel''"
      by (simp add: sample_types)
    from b ty lt show ?thesis
      by blast
  qed
  show ?thesis
    unfolding z [symmetric] by (intro conjI sample_devices u0 u1 1 2 3 4 5 6)
qed


subsection \<open>Metric values and unknown devices\<close>





text \<open>
  Claim C7, as stated, fails: \<open>get_device_type\<close> raises nothing. For an identifier
  with none of the eight tokens, such as \<open>drone_007\<close>, no branch is taken and the
  function returns the value \<open>None\<close>.
\<close>

theorem unknown_device_counterexample:
  "\<not> py_in ''truck'' ''drone_007'' \<and> \<not> py_in ''loader'' ''drone_007'' \<and>
   \<not> py_in ''excavator'' ''drone_007'' \<and> \<not> py_in ''fan'' ''drone_007'' \<and>
   \<not> py_in ''vent'' ''drone_007'' \<and> \<not> py_in ''conveyor'' ''drone_007'' \<and>
   \<not> py_in ''env'' ''drone_007'' \<and> \<not> py_in ''personnel'' ''drone_007'' \<and>
   get_device_type ''drone_007'' = None"
  by (simp add: get_device_type_def)

text \<open>
  Claim C7, amended. For every identifier in which none of the tokens occurs,
  \<open>get_device_type\<close> returns \<open>None\<close>; the failure comes afterwards, in
  \<open>simulate_data\<close>, where the lookup \<open>metric_ranges[None]\<close> raises \<open>KeyError\<close> before
  any metric is drawn.
\<close>

theorem unknown_device:
  assumes "\<not> py_in ''truck'' d" and "\<not> py_in ''loader'' d" and "\<not> py_in ''excavator'' d"
    and "\<not> py_in ''fan'' d" and "\<not> py_in ''vent'' d" and "\<not> py_in ''conveyor'' d"
    and "\<not> py_in ''env'' d" and "\<not> py_in ''personnel'' d"
  shows "get_device_type d = None \<and>
    generate_metrics config d g = Inl KeyError \<and>
    simulate_data config now d md g = Inl KeyError"
  using assms by (simp add: get_device_type_def generate_metrics_def simulate_data_def)

text \<open>
  The identifier \<open>drone_007\<close>.
\<close>

theorem unknown_device_witness:
  "\<not> py_in ''truck'' ''drone_007'' \<and> \<not> py_in ''loader'' ''drone_007'' \<and>
   \<not> py_in ''excavator'' ''drone_007'' \<and> \<not> py_in ''fan'' ''drone_007'' \<and>
   \<not> py_in ''vent'' ''drone_007'' \<and> \<not> py_in ''conveyor'' ''drone_007'' \<and>
   \<not> py_in ''env'' ''drone_007'' \<and> \<not> py_in ''personnel'' ''drone_007'' \<and>
   get_device_type ''drone_007'' = None \<and>
   simulate_data default_config ''2026-01-01T00:00:00'' ''drone_007'' ''normal'' (const_draws 0)
     = Inl KeyError"
proof -
  have h: "\<not> py_in ''truck'' ''drone_007''" "\<not> py_in ''loader'' ''drone_007''"
    "\<not> py_in ''excavator'' ''drone_007''" "\<not> py_in ''fan'' ''drone_007''"
    "\<not> py_in ''vent'' ''drone_007''" "\<not> py_in ''conveyor'' ''drone_007''"
    "\<not> py_in ''env'' ''drone_007''" "\<not> py_in ''personnel'' ''drone_007''"
    by simp_all
  from h unknown_device [OF h, of default_config "const_draws 0" "''2026-01-01T00:00:00''"
      "''normal''"]
  show ?thesis by blast
qed


subsection \<open>The publishing loop\<close>

lemma run_add: "run config clock dev md (a + b) s = run config clock dev md b (run config clock dev md a s)"
  by (induction a arbitrary: s) simp_all

lemma run_Suc_right:
  "run config clock dev md (Suc n) s = step config clock dev md (run config clock dev md n s)"
  using run_add [of config clock dev md n 1 s] by simp

lemma buffer_inv_step:
  assumes "buffer_inv s"
  shows "buffer_inv (step config clock dev md s)"
proof (cases "pc s")
  case L176
  with assms show ?thesis
    by (auto simp: step_def buffer_inv_def split: sum.splits prod.splits)
next
  case (L177 d)
  with assms show ?thesis
    by (auto simp: step_def buffer_inv_def split: prod.splits)
next
  case (L178 d)
  with assms show ?thesis
    by (simp add: step_def buffer_inv_def)
next
  case L179
  with assms show ?thesis
    by (auto simp: step_def buffer_inv_def split: prod.splits)
next
  case (L181 i)
  with assms show ?thesis
    by (auto simp: step_def buffer_inv_def)
next
  case L183
  with assms show ?thesis
    by (simp add: step_def buffer_inv_def)
next
  case (L186 d)
  with assms show ?thesis
    by (simp add: step_def buffer_inv_def)
next
  case L188
  with assms show ?thesis
    by (simp add: step_def buffer_inv_def)
next
  case (Raised e)
  with assms show ?thesis
    by (simp add: step_def buffer_inv_def)
qed

lemma buffer_inv_run:
  "buffer_inv s \<Longrightarrow> buffer_inv (run config clock dev md n s)"
  by (induction n arbitrary: s) (simp_all add: buffer_inv_step)

lemma buffer_inv_publish_loop: "buffer_inv (publish_loop config clock dev md g n)"
  unfolding publish_loop_def by (rule buffer_inv_run) (simp add: buffer_inv_def)

lemma flush_from:
  assumes "pc s = L181 i" and "i + k = length (buffer s)"
  shows "run config clock dev md k s =
    s\<lparr>pc := L181 (length (buffer s)),
       trace := trace s @ map (\<lambda>d. Publish (''mining/'' @ dev) d 1) (drop i (buffer s))\<rparr>"
  using assms
proof (induction k arbitrary: s i)
  case 0
  then show ?case by simp
next
  case (Suc k)
  let ?s = "step config clock dev md s"
  from Suc.prems have i: "i < length (buffer s)" by simp
  with Suc.prems(1) have s': "?s = s\<lparr>pc := L181 (Suc i),
      trace := trace s @ [Publish (''mining/'' @ dev) (buffer s ! i) 1]\<rparr>"
    by (simp add: step_def)
  then have "pc ?s = L181 (Suc i)" and "Suc i + k = length (buffer ?s)"
    using Suc.prems(2) by simp_all
  from Suc.IH [OF this] have "run config clock dev md k ?s =
    ?s\<lparr>pc := L181 (length (buffer ?s)),
       trace := trace ?s @ map (\<lambda>d. Publish (''mining/'' @ dev) d 1) (drop (Suc i) (buffer ?s))\<rparr>" .
  moreover have "drop i (buffer s) = buffer s ! i # drop (Suc i) (buffer s)"
    using i by (simp add: Cons_nth_drop_Suc)
  ultimately show ?case
    by (simp add: s')
qed

lemma flush_all:
  assumes "pc s = L181 0"
  shows "run config clock dev md (length (buffer s) + 2) s =
    s\<lparr>pc := L188, buffer := [],
       trace := trace s @ map (\<lambda>d. Publish (''mining/'' @ dev) d 1) (buffer s)\<rparr>"
proof -
  let ?t = "run config clock dev md (length (buffer s)) s"
  have t: "?t = s\<lparr>pc := L181 (length (buffer s)),
       trace := trace s @ map (\<lambda>d. Publish (''mining/'' @ dev) d 1) (buffer s)\<rparr>"
    using flush_from [OF assms, of "length (buffer s)" config clock dev md] by simp
  have "run config clock dev md 2 ?t = step config clock dev md (step config clock dev md ?t)"
    by (simp add: numeral_2_eq_2)
  also have "\<dots> = s\<lparr>pc := L188, buffer := [],
       trace := trace s @ map (\<lambda>d. Publish (''mining/'' @ dev) d 1) (buffer s)\<rparr>"
    by (simp add: t step_def)
  finally show ?thesis
    unfolding run_add .
qed


lemma outage_cycle:
  assumes "pc s = L178 d"
  shows "run config clock dev md (length (buffer s) + 5) s =
    s\<lparr>pc := L188, buffer := [], gen := snd (randint 10 30 (gen s)),
       trace := trace s @ Sleep (real_of_int (fst (randint 10 30 (gen s))))
         # map (\<lambda>x. Publish (''mining/'' @ dev) x 1) (buffer s @ [d])\<rparr>"
proof -
  let ?t = "s\<lparr>pc := L181 0, buffer := buffer s @ [d], gen := snd (randint 10 30 (gen s)),
       trace := trace s @ [Sleep (real_of_int (fst (randint 10 30 (gen s))))]\<rparr>"
  have "run config clock dev md 2 s = step config clock dev md (step config clock dev md s)"
    by (simp add: numeral_2_eq_2)
  also have "\<dots> = ?t"
    using assms by (simp add: step_def split: prod.splits)
  finally have two: "run config clock dev md 2 s = ?t" .
  have p: "pc ?t = L181 0"
    by simp
  have len: "length (buffer ?t) + 2 = length (buffer s) + 3"
    by simp
  have rhs: "?t\<lparr>pc := L188, buffer := [],
       trace := trace ?t @ map (\<lambda>d. Publish (''mining/'' @ dev) d 1) (buffer ?t)\<rparr> =
    s\<lparr>pc := L188, buffer := [], gen := snd (randint 10 30 (gen s)),
       trace := trace s @ Sleep (real_of_int (fst (randint 10 30 (gen s))))
         # map (\<lambda>x. Publish (''mining/'' @ dev) x 1) (buffer s @ [d])\<rparr>"
    by simp
  have "run config clock dev md (length (buffer s) + 3) ?t =
    s\<lparr>pc := L188, buffer := [], gen := snd (randint 10 30 (gen s)),
       trace := trace s @ Sleep (real_of_int (fst (randint 10 30 (gen s))))
         # map (\<lambda>x. Publish (''mining/'' @ dev) x 1) (buffer s @ [d])\<rparr>"
    using flush_all [OF p, of config clock dev md] unfolding len rhs .
  moreover have "length (buffer s) + 5 = 2 + (length (buffer s) + 3)"
    by simp
  ultimately show ?thesis
    by (simp only: run_add two)
qed

text \<open>
  Claim C8. Whenever the thread is at the head of the loop (line 176), after any number
  of statements, the buffer is empty. Whenever the thread has decided on an outage and is
  about to append the record \<open>d\<close> (line 178), the loop goes on to sleep once and then
  to publish the whole buffer, the records that were in it first and in their order and
  \<open>d\<close> last, each on the topic \<open>mining/\<close> and the device with \<open>qos\<close> 1; the buffer is
  empty from the statement after the flush on, at the sleep that ends the iteration
  (line 188). The last part says the same of the statements themselves, from any state
  at line 178, whatever the buffer holds. This holds in every mode; only intermittent
  mode takes the outage branch.
\<close>

theorem outage_flush:
  "(pc (publish_loop config clock dev md g n) = L176 \<longrightarrow>
      buffer (publish_loop config clock dev md g n) = []) \<and>
   (pc (publish_loop config clock dev md g n) = L178 d \<longrightarrow>
      publish_loop config clock dev md g
          (n + (length (buffer (publish_loop config clock dev md g n)) + 5)) =
        (publish_loop config clock dev md g n)
          \<lparr>pc := L188, buffer := [],
           gen := snd (randint 10 30 (gen (publish_loop config clock dev md g n))),
           trace := trace (publish_loop config clock dev md g n)
             @ Sleep (real_of_int (fst (randint 10 30 (gen (publish_loop config clock dev md g n)))))
             # map (\<lambda>x. Publish (''mining/'' @ dev) x 1)
                 (buffer (publish_loop config clock dev md g n) @ [d])\<rparr>) \<and>
   (pc s = L178 d \<longrightarrow>
      run config clock dev md (length (buffer s) + 5) s =
        s\<lparr>pc := L188, buffer := [], gen := snd (randint 10 30 (gen s)),
           trace := trace s @ Sleep (real_of_int (fst (randint 10 30 (gen s))))
             # map (\<lambda>x. Publish (''mining/'' @ dev) x 1) (buffer s @ [d])\<rparr>)"
proof (intro conjI impI)
  assume "pc (publish_loop config clock dev md g n) = L176"
  with buffer_inv_publish_loop [of config clock dev md g n]
  show "buffer (publish_loop config clock dev md g n) = []"
    by (simp add: buffer_inv_def)
next
  let ?s = "publish_loop config clock dev md g n"
  assume p: "pc ?s = L178 d"
  have "publish_loop config clock dev md g (n + (length (buffer ?s) + 5)) =
      run config clock dev md (length (buffer ?s) + 5) ?s"
    unfolding publish_loop_def by (rule run_add)
  also have "\<dots> = ?s\<lparr>pc := L188, buffer := [], gen := snd (randint 10 30 (gen ?s)),
           trace := trace ?s @ Sleep (real_of_int (fst (randint 10 30 (gen ?s))))
             # map (\<lambda>x. Publish (''mining/'' @ dev) x 1) (buffer ?s @ [d])\<rparr>"
    using p by (rule outage_cycle)
  finally show "publish_loop config clock dev md g (n + (length (buffer ?s) + 5)) =
        ?s\<lparr>pc := L188, buffer := [], gen := snd (randint 10 30 (gen ?s)),
           trace := trace ?s @ Sleep (real_of_int (fst (randint 10 30 (gen ?s))))
             # map (\<lambda>x. Publish (''mining/'' @ dev) x 1) (buffer ?s @ [d])\<rparr>" .
next
  assume "pc s = L178 d"
  then show "run config clock dev md (length (buffer s) + 5) s =
        s\<lparr>pc := L188, buffer := [], gen := snd (randint 10 30 (gen s)),
           trace := trace s @ Sleep (real_of_int (fst (randint 10 30 (gen s))))
             # map (\<lambda>x. Publish (''mining/'' @ dev) x 1) (buffer s @ [d])\<rparr>"
    by (rule outage_cycle)
qed

text \<open>
  Claim C10. After any number of statements the buffer holds at most one record, and none
  at the head of the loop. At line 178 the buffer is empty and the statement makes it
  the one record \<open>d\<close>; at the start of the flush (line 181) the buffer is one record
  \<open>x\<close>, and three statements later exactly that record has been published, the buffer is
  empty and the thread is at the sleep of line 188, in the same iteration.
\<close>

theorem buffer_bound:
  "length (buffer (publish_loop config clock dev md g n)) \<le> 1 \<and>
   (pc (publish_loop config clock dev md g n) = L176 \<longrightarrow>
      length (buffer (publish_loop config clock dev md g n)) = 0) \<and>
   (pc (publish_loop config clock dev md g n) = L178 d \<longrightarrow>
      buffer (publish_loop config clock dev md g n) = [] \<and>
      buffer (publish_loop config clock dev md g (Suc n)) = [d]) \<and>
   (pc (publish_loop config clock dev md g n) = L181 0 \<longrightarrow>
      (\<exists>x. buffer (publish_loop config clock dev md g n) = [x] \<and>
         publish_loop config clock dev md g (n + 3) =
           (publish_loop config clock dev md g n)
             \<lparr>pc := L188, buffer := [],
              trace := trace (publish_loop config clock dev md g n)
                @ [Publish (''mining/'' @ dev) x 1]\<rparr>))"
proof -
  let ?s = "publish_loop config clock dev md g n"
  note inv = buffer_inv_publish_loop [of config clock dev md g n]
  have 1: "length (buffer ?s) \<le> 1"
    using inv by (auto simp: buffer_inv_def split: point.split_asm)
  have 2: "pc ?s = L176 \<longrightarrow> length (buffer ?s) = 0"
    using inv by (auto simp: buffer_inv_def)
  have 3: "pc ?s = L178 d \<longrightarrow>
      buffer ?s = [] \<and> buffer (publish_loop config clock dev md g (Suc n)) = [d]"
  proof
    assume p: "pc ?s = L178 d"
    with inv have "buffer ?s = []"
      by (simp add: buffer_inv_def)
    moreover have "publish_loop config clock dev md g (Suc n) = step config clock dev md ?s"
      unfolding publish_loop_def by (rule run_Suc_right)
    ultimately show "buffer ?s = [] \<and> buffer (publish_loop config clock dev md g (Suc n)) = [d]"
      using p by (simp add: step_def)
  qed
  have 4: "pc ?s = L181 0 \<longrightarrow>
      (\<exists>x. buffer ?s = [x] \<and>
         publish_loop config clock dev md g (n + 3) =
           ?s\<lparr>pc := L188, buffer := [],
              trace := trace ?s @ [Publish (''mining/'' @ dev) x 1]\<rparr>)"
  proof
    assume p: "pc ?s = L181 0"
    with inv have "length (buffer ?s) = 1"
      by (simp add: buffer_inv_def)
    then obtain x where x: "buffer ?s = [x]"
      by (cases "buffer ?s") simp_all
    have l3: "length (buffer ?s) + 2 = 3"
      by (simp add: x)
    have "publish_loop config clock dev md g (n + 3) = run config clock dev md 3 ?s"
      unfolding publish_loop_def by (rule run_add)
    also have "\<dots> = ?s\<lparr>pc := L188, buffer := [],
              trace := trace ?s @ map (\<lambda>d. Publish (''mining/'' @ dev) d 1) (buffer ?s)\<rparr>"
      using flush_all [OF p, of config clock dev md] unfolding l3 .
    also have "\<dots> = ?s\<lparr>pc := L188, buffer := [],
              trace := trace ?s @ [Publish (''mining/'' @ dev) x 1]\<rparr>"
      by (simp add: x)
    finally show "\<exists>x. buffer ?s = [x] \<and>
         publish_loop config clock dev md g (n + 3) =
           ?s\<lparr>pc := L188, buffer := [],
              trace := trace ?s @ [Publish (''mining/'' @ dev) x 1]\<rparr>"
      using x by blast
  qed
  from 1 2 3 4 show ?thesis
    by (intro conjI)
qed


lemma py_random_const: "py_random (const_draws u) = (u, const_draws u)"
  by (simp add: py_random_def const_draws_def)

lemma jittered_const:
  "jittered var lo hi (const_draws u)
     = (jitter_of var lo hi u u, const_draws u)"
  by (simp add: jittered_def uniform_def py_random_const jitter_of_def)

lemma choice_const_zero: "seq \<noteq> [] \<Longrightarrow> choice seq (const_draws 0) = Inr (seq ! 0, const_draws 0)"
  by (simp add: choice_def py_random_const)

lemma randint_const_zero: "randint a b (const_draws 0) = (a, const_draws 0)"
  by (simp add: randint_def py_random_const)

lemma simulate_fan:
  "simulate_data default_config now ''fan_000'' ''intermittent'' (const_draws 0) =
     Inr (\<lparr>device_id = ''fan_000'', type = ''fixed'', timestamp = now @ ''Z'',
           metrics = [(''vibration'', Num 0.09), (''motor_temp'', Num 36),
                      (''operational_status'', Str ''running''),
                      (''airflow_rate'', Num 90), (''power_consumption'', Num 450)],
           status = ''normal''\<rparr>, const_draws 0)"
  by (simp add: simulate_data_def generate_metrics_def inject_fault_def
      get_device_type_def metric_ranges_def jittered_const jitter_of_def choice_const_zero
      default_config_def)

lemma frequency_default: "\<not> frequency default_config < 0"
  by (simp add: default_config_def)

lemma fan_loop:
  "publish_loop default_config (frozen_clock ''2026-01-01T00:00:00'') ''fan_000''
     ''intermittent'' (const_draws 0) 2 =
   \<lparr>pc = L178 \<lparr>device_id = ''fan_000'', type = ''fixed'', timestamp = ''2026-01-01T00:00:00Z'',
           metrics = [(''vibration'', Num 0.09), (''motor_temp'', Num 36),
                      (''operational_status'', Str ''running''),
                      (''airflow_rate'', Num 90), (''power_consumption'', Num 450)],
           status = ''normal''\<rparr>,
     buffer = [], gen = const_draws 0, ticks = 1, trace = []\<rparr>"
  "pc (publish_loop default_config (frozen_clock ''2026-01-01T00:00:00'') ''fan_000''
     ''intermittent'' (const_draws 0) 4) = L181 0"
  "pc (publish_loop default_config (frozen_clock ''2026-01-01T00:00:00'') ''fan_000''
     ''intermittent'' (const_draws 0) 8) = L176"
  by (simp_all add: publish_loop_def eval_nat_numeral step_def simulate_fan py_random_const
      randint_const_zero frozen_clock_def frequency_default)

text \<open>
  A fan in intermittent mode whose first iteration is an outage: it is at line 178 after
  two statements with the record just generated, at the sleep of line 188 after seven,
  with the outage sleep and that record published and the buffer empty, and back at the
  head of the loop after eight. And a state with one record buffered and a second about
  to be appended publishes the two in that order.
\<close>

theorem outage_flush_witness:
  "pc (publish_loop default_config (frozen_clock ''2026-01-01T00:00:00'') ''fan_000''
     ''intermittent'' (const_draws 0) 8) = L176 \<and>
   buffer (publish_loop default_config (frozen_clock ''2026-01-01T00:00:00'') ''fan_000''
     ''intermittent'' (const_draws 0) 8) = [] \<and>
   pc (publish_loop default_config (frozen_clock ''2026-01-01T00:00:00'') ''fan_000''
     ''intermittent'' (const_draws 0) 2) =
     L178 \<lparr>device_id = ''fan_000'', type = ''fixed'', timestamp = ''2026-01-01T00:00:00Z'',
           metrics = [(''vibration'', Num 0.09), (''motor_temp'', Num 36),
                      (''operational_status'', Str ''running''),
                      (''airflow_rate'', Num 90), (''power_consumption'', Num 450)],
           status = ''normal''\<rparr> \<and>
   publish_loop default_config (frozen_clock ''2026-01-01T00:00:00'') ''fan_000''
     ''intermittent'' (const_draws 0) 7 =
     \<lparr>pc = L188, buffer = [], gen = const_draws 0, ticks = 1,
      trace = [Sleep 10,
               Publish ''mining/fan_000''
                 \<lparr>device_id = ''fan_000'', type = ''fixed'',
                  timestamp = ''2026-01-01T00:00:00Z'',
                  metrics = [(''vibration'', Num 0.09), (''motor_temp'', Num 36),
                             (''operational_status'', Str ''running''),
                             (''airflow_rate'', Num 90), (''power_consumption'', Num 450)],
                  status = ''normal''\<rparr> 1]\<rparr> \<and>
   pc sample_state = L178 (sample_payload ''2026-01-01T00:00:20Z'') \<and>
   run default_config (frozen_clock ''2026-01-01T00:00:00'') ''fan_000'' ''intermittent'' 6
       sample_state =
     \<lparr>pc = L188, buffer = [], gen = const_draws 0, ticks = 2,
      trace = [Sleep 10,
               Publish ''mining/fan_000'' (sample_payload ''2026-01-01T00:00:10Z'') 1,
               Publish ''mining/fan_000'' (sample_payload ''2026-01-01T00:00:20Z'') 1]\<rparr>"
proof -
  let ?clock = "frozen_clock ''2026-01-01T00:00:00''"
  let ?L = "publish_loop default_config ?clock ''fan_000'' ''intermittent'' (const_draws 0)"
  let ?D = "\<lparr>device_id = ''fan_000'', type = ''fixed'', timestamp = ''2026-01-01T00:00:00Z'',
           metrics = [(''vibration'', Num 0.09), (''motor_temp'', Num 36),
                      (''operational_status'', Str ''running''),
                      (''airflow_rate'', Num 90), (''power_consumption'', Num 450)],
           status = ''normal''\<rparr>"
  note t1 = outage_flush [of default_config ?clock "''fan_000''" "''intermittent''"
      "const_draws 0" 8, THEN conjunct1, THEN mp, OF fan_loop(3)]
  have p2: "pc (?L 2) = L178 ?D"
    by (simp add: fan_loop(1))
  have n7: "2 + (length (buffer (?L 2)) + 5) = 7"
    by (simp add: fan_loop(1))
  note t2 = outage_flush [of default_config ?clock "''fan_000''" "''intermittent''"
      "const_draws 0" 2 ?D, THEN conjunct2, THEN conjunct1, THEN mp, OF p2, unfolded n7]
  have l7: "?L 7 = \<lparr>pc = L188, buffer = [], gen = const_draws 0, ticks = 1,
      trace = [Sleep 10, Publish ''mining/fan_000'' ?D 1]\<rparr>"
    unfolding t2 by (simp add: fan_loop(1) randint_const_zero)
  have p: "pc sample_state = L178 (sample_payload ''2026-01-01T00:00:20Z'')"
    by (simp add: sample_state_def)
  have l: "length (buffer sample_state) + 5 = 6"
    by (simp add: sample_state_def)
  note t3 = outage_flush [of default_config ?clock "''fan_000''" "''intermittent''"
      "const_draws 0" 0 "sample_payload ''2026-01-01T00:00:20Z''" sample_state,
      THEN conjunct2, THEN conjunct2, THEN mp, OF p, unfolded l]
  have "run default_config ?clock ''fan_000'' ''intermittent'' 6 sample_state =
     \<lparr>pc = L188, buffer = [], gen = const_draws 0, ticks = 2,
      trace = [Sleep 10,
               Publish ''mining/fan_000'' (sample_payload ''2026-01-01T00:00:10Z'') 1,
               Publish ''mining/fan_000'' (sample_payload ''2026-01-01T00:00:20Z'') 1]\<rparr>"
    unfolding t3 by (simp add: sample_state_def randint_const_zero)
  with fan_loop(3) t1 p2 l7 p show ?thesis
    by (intro conjI)
qed

text \<open>
  The first iteration of a fan in intermittent mode with an outage: line 178 after two
  statements, line 181 after four, the head of the loop again after eight.
\<close>

theorem buffer_bound_witness:
  "pc (publish_loop default_config (frozen_clock ''2026-01-01T00:00:00'') ''fan_000''
     ''intermittent'' (const_draws 0) 8) = L176 \<and>
   length (buffer (publish_loop default_config (frozen_clock ''2026-01-01T00:00:00'') ''fan_000''
     ''intermittent'' (const_draws 0) 8)) = 0 \<and>
   (\<exists>d. pc (publish_loop default_config (frozen_clock ''2026-01-01T00:00:00'') ''fan_000''
          ''intermittent'' (const_draws 0) 2) = L178 d \<and>
        buffer (publish_loop default_config (frozen_clock ''2026-01-01T00:00:00'') ''fan_000''
          ''intermittent'' (const_draws 0) 2) = [] \<and>
        buffer (publish_loop default_config (frozen_clock ''2026-01-01T00:00:00'') ''fan_000''
          ''intermittent'' (const_draws 0) (Suc 2)) = [d]) \<and>
   pc (publish_loop default_config (frozen_clock ''2026-01-01T00:00:00'') ''fan_000''
     ''intermittent'' (const_draws 0) 4) = L181 0 \<and>
   (\<exists>x. buffer (publish_loop default_config (frozen_clock ''2026-01-01T00:00:00'') ''fan_000''
          ''intermittent'' (const_draws 0) 4) = [x] \<and>
        publish_loop default_config (frozen_clock ''2026-01-01T00:00:00'') ''fan_000''
          ''intermittent'' (const_draws 0) (4 + 3) =
        (publish_loop default_config (frozen_clock ''2026-01-01T00:00:00'') ''fan_000''
          ''intermittent'' (const_draws 0) 4)
          \<lparr>pc := L188, buffer := [],
           trace := trace (publish_loop default_config (frozen_clock ''2026-01-01T00:00:00'')
               ''fan_000'' ''intermittent'' (const_draws 0) 4)
             @ [Publish (''mining/'' @ ''fan_000'') x 1]\<rparr>)"
proof -
  let ?L = "publish_loop default_config (frozen_clock ''2026-01-01T00:00:00'') ''fan_000''
     ''intermittent'' (const_draws 0)"
  obtain d where d: "pc (?L 2) = L178 d"
    by (simp add: fan_loop(1))
  note b = buffer_bound [of default_config "frozen_clock ''2026-01-01T00:00:00''" "''fan_000''"
      "''intermittent''" "const_draws 0"]
  from b [of 8] fan_loop(3) have 1: "length (buffer (?L 8)) = 0"
    by blast
  from b [of 2 d] d have 2: "buffer (?L 2) = [] \<and> buffer (?L (Suc 2)) = [d]"
    by blast
  from b [of 4] fan_loop(2) have 3: "\<exists>x. buffer (?L 4) = [x] \<and>
        ?L (4 + 3) = (?L 4)\<lparr>pc := L188, buffer := [],
           trace := trace (?L 4) @ [Publish (''mining/'' @ ''fan_000'') x 1]\<rparr>"
    by blast
  from d 2 have "\<exists>d. pc (?L 2) = L178 d \<and> buffer (?L 2) = [] \<and> buffer (?L (Suc 2)) = [d]"
    by blast
  with fan_loop(2,3) 1 3 show ?thesis
    by (intro conjI)
qed

end
